theory Spec2Isabelle
  imports Main "HOL-Library.Multiset"
begin

section \<open>The JavaScript runtime, as far as the portal uses it\<close>

text \<open>
  Strings are \<^typ>\<open>string\<close>; a \<^typ>\<open>char\<close> stands for one UTF-16 code unit in the range
  0..255. Numbers are \<^typ>\<open>int\<close>: the portal's quantities and totals are integers, and the
  model is exact as long as they stay inside the range a double represents exactly
  (below \<open>2 ^ 53\<close> in absolute value). A \<open>Date\<close> is read through its getters only.
\<close>

subsection \<open>Strings\<close>

text \<open>
  \<open>String.prototype.trim\<close> and \<open>parseInt\<close> skip white space and line terminators:
  TAB, LF, VT, FF, CR, SP and NBSP are the ones below code unit 256.
\<close>

definition is_js_whitespace :: "char \<Rightarrow> bool" where
  "is_js_whitespace c =
     (c = CHR 0x09 \<or> c = CHR 0x0A \<or> c = CHR 0x0B \<or> c = CHR 0x0C \<or> c = CHR 0x0D \<or>
      c = CHR 0x20 \<or> c = CHR 0xA0)"

definition trim :: "string \<Rightarrow> string" where
  "trim s = rev (dropWhile is_js_whitespace (rev (dropWhile is_js_whitespace s)))"

text \<open>\<open>a || b\<close> on strings: the empty string is falsy.\<close>

definition js_or :: "string \<Rightarrow> string \<Rightarrow> string" where
  "js_or a b = (if a \<noteq> [] then a else b)"

text \<open>\<open>xs.join(sep)\<close> on an array of strings.\<close>

fun join :: "string \<Rightarrow> string list \<Rightarrow> string" where
  "join sep [] = []"
| "join sep [x] = x"
| "join sep (x # y # ys) = x @ sep @ join sep (y # ys)"

subsection \<open>Numbers\<close>

definition is_digit :: "char \<Rightarrow> bool" where
  "is_digit c = (48 \<le> (of_char c :: nat) \<and> (of_char c :: nat) \<le> 57)"

text \<open>The value of a digit of radix up to 36; 36 for a character that is no digit.\<close>

definition digit_value :: "char \<Rightarrow> nat" where
  "digit_value c =
     (let n = (of_char c :: nat) in
      if 48 \<le> n \<and> n \<le> 57 then n - 48
      else if 97 \<le> n \<and> n \<le> 122 then n - 87
      else if 65 \<le> n \<and> n \<le> 90 then n - 55
      else 36)"

definition radix_value :: "nat \<Rightarrow> string \<Rightarrow> nat" where
  "radix_value R Z = foldl (\<lambda>acc c. acc * R + digit_value c) 0 Z"

text \<open>
  \<open>parseInt(string)\<close> with no radix: leading white space is skipped, a sign is read, a
  \<open>0x\<close> prefix selects radix 16, and the longest prefix of digits is the value. \<open>None\<close> is
  \<open>NaN\<close> (no digit at all).
\<close>

definition parseInt :: "string \<Rightarrow> int option" where
  "parseInt inputString =
     (let S = dropWhile is_js_whitespace inputString;
          sign = (case S of c # _ \<Rightarrow> if c = CHR ''-'' then - 1 else 1 | [] \<Rightarrow> (1::int));
          S1 = (case S of c # rest \<Rightarrow> if c = CHR ''+'' \<or> c = CHR ''-'' then rest else S | [] \<Rightarrow> S);
          hex = (case S1 of a # b # _ \<Rightarrow> a = CHR ''0'' \<and> (b = CHR ''x'' \<or> b = CHR ''X'') | _ \<Rightarrow> False);
          R = (if hex then 16 else 10);
          S2 = (if hex then drop 2 S1 else S1);
          Z = takeWhile (\<lambda>c. digit_value c < R) S2
      in if Z = [] then None else Some (sign * int (radix_value R Z)))"

text \<open>\<open>parseInt(value) || 0\<close>: \<open>NaN\<close> and 0 are falsy.\<close>

definition parseInt_or_0 :: "string \<Rightarrow> int" where
  "parseInt_or_0 v = (case parseInt v of None \<Rightarrow> 0 | Some n \<Rightarrow> if n = 0 then 0 else n)"

text \<open>\<open>Number.prototype.toString\<close> on an integer: its decimal digits, with a minus sign.\<close>

fun nat_toString :: "nat \<Rightarrow> string" where
  "nat_toString n =
     (if n < 10 then [char_of (48 + n)] else nat_toString (n div 10) @ [char_of (48 + n mod 10)])"

declare nat_toString.simps [simp del]

definition toString :: "int \<Rightarrow> string" where
  "toString i = (if i < 0 then CHR ''-'' # nat_toString (nat (- i)) else nat_toString (nat i))"

subsection \<open>Objects used as dictionaries\<close>

text \<open>
  A \<open>Record<string, V>\<close> is the list of its own properties in the order \<open>Object.values\<close>
  and \<open>Object.entries\<close> enumerate them: array-index keys first, in ascending numeric
  order, then the other keys in the order they were created. Keys are distinct. A key is
  taken not to name a member of \<open>Object.prototype\<close>.
\<close>

type_synonym 'v js_object = "(string \<times> 'v) list"

fun canonical_digits :: "string \<Rightarrow> bool" where
  "canonical_digits [] = False"
| "canonical_digits [c] = is_digit c"
| "canonical_digits (c # cs) = (is_digit c \<and> c \<noteq> CHR ''0'' \<and> list_all is_digit cs)"

definition is_array_index :: "string \<Rightarrow> bool" where
  "is_array_index k = (canonical_digits k \<and> radix_value 10 k \<le> 4294967294)"

definition obj_get :: "'v js_object \<Rightarrow> string \<Rightarrow> 'v option" where
  "obj_get obj k = map_of obj k"

fun obj_insert_index :: "string \<Rightarrow> 'v \<Rightarrow> 'v js_object \<Rightarrow> 'v js_object" where
  "obj_insert_index k v [] = [(k, v)]"
| "obj_insert_index k v ((k', v') # rest) =
     (if is_array_index k' \<and> radix_value 10 k' < radix_value 10 k
      then (k', v') # obj_insert_index k v rest
      else (k, v) # (k', v') # rest)"

text \<open>
  \<open>{ ...obj, [k]: v }\<close>: a key that is present keeps its place and gets the new value; a
  new key is created at the place the enumeration order gives it.
\<close>

definition obj_set :: "string \<Rightarrow> 'v \<Rightarrow> 'v js_object \<Rightarrow> 'v js_object" where
  "obj_set k v obj =
     (if map_of obj k \<noteq> None then map (\<lambda>(k', v'). if k' = k then (k', v) else (k', v')) obj
      else if is_array_index k then obj_insert_index k v obj
      else obj @ [(k, v)])"

subsection \<open>Dates\<close>

text \<open>
  A valid \<open>Date\<close>, as its getters show it: the time value in milliseconds and the calendar
  fields of the local time zone (\<open>getMonth\<close> counts from 0).
\<close>

record Date =
  getTime :: int
  getFullYear :: int
  getMonth :: nat
  getDate :: nat

section \<open>The data model (src/types/index.ts)\<close>

text \<open>Of a product, the fields the dashboard's handlers read.\<close>

record Product =
  product_id :: string
  product_name :: string
  product_styleNumber :: string
  product_colors :: "string list"
  product_sizes :: "string list"

text \<open>
  \<open>color\<close> is \<open>None\<close> for \<open>undefined\<close>: a selection created by a quantity edit takes
  \<open>product.colors[0]\<close>, which a product without colours does not have.
\<close>

record OrderItem =
  item_productId :: string
  item_productName :: string
  item_styleNumber :: string
  color :: "string option"
  item_size :: string
  quantity :: int

record Order =
  order_id :: string
  customerId :: string
  customerName :: string
  customerEmail :: string
  order_poNumber :: string
  items :: "OrderItem list"
  status :: string
  order_totalItems :: int
  createdAt :: Date

section \<open>The customer dashboard (src/pages/customer/CustomerDashboard.tsx)\<close>

record ProductSelection =
  productId :: string
  productName :: string
  styleNumber :: string
  selectedColor :: "string option"
  quantities :: "int js_object"

text \<open>The component's state: one field per \<open>useState\<close> the handlers below read or write.\<close>

record dashboard =
  products :: "Product list"
  selections :: "ProductSelection js_object"
  showConfirmation :: bool
  poNumber :: string
  poError :: string
  isSubmitting :: bool
  lastOrderId :: string
  lastPoNumber :: string
  orders :: "Order list"
  ordersLoading :: bool
  expandedOrderId :: "string option"

subsection \<open>The catalog selection model\<close>

text \<open>
  The handlers run one at a time, each on the state the last one left: the \<open>selections\<close> a
  handler closes over and the \<open>prev\<close> its update function receives are the same object.
\<close>

definition handleColorChange :: "Product \<Rightarrow> string \<Rightarrow> dashboard \<Rightarrow> dashboard" where
  "handleColorChange product c st =
     st\<lparr>selections :=
          obj_set (product_id product)
            \<lparr>productId = product_id product,
             productName = product_name product,
             styleNumber = product_styleNumber product,
             selectedColor = Some c,
             quantities = (case obj_get (selections st) (product_id product) of
                             Some prev \<Rightarrow> quantities prev
                           | None \<Rightarrow> [])\<rparr>
            (selections st)\<rparr>"

text \<open>\<open>product.colors[0]\<close>\<close>

definition first_color :: "Product \<Rightarrow> string option" where
  "first_color product = (case product_colors product of [] \<Rightarrow> None | c # _ \<Rightarrow> Some c)"

definition handleQuantityChange :: "Product \<Rightarrow> string \<Rightarrow> string \<Rightarrow> dashboard \<Rightarrow> dashboard" where
  "handleQuantityChange product sz v st =
     (let qty = parseInt_or_0 v;
          currentSelection =
            (case obj_get (selections st) (product_id product) of
               Some sel \<Rightarrow> sel
             | None \<Rightarrow>
                 \<lparr>productId = product_id product,
                  productName = product_name product,
                  styleNumber = product_styleNumber product,
                  selectedColor = first_color product,
                  quantities = []\<rparr>)
      in st\<lparr>selections :=
              obj_set (product_id product)
                (currentSelection\<lparr>quantities := obj_set sz qty (quantities currentSelection)\<rparr>)
                (selections st)\<rparr>)"

subsection \<open>The order item projection\<close>

text \<open>
  \<open>getOrderItems\<close> runs two nested \<open>forEach\<close> loops that push onto \<open>items\<close>; the
  accumulator of the folds is that array.
\<close>

definition push_sizes ::
  "ProductSelection \<Rightarrow> string \<Rightarrow> OrderItem list \<Rightarrow> OrderItem list" where
  "push_sizes selection sn its =
     fold (\<lambda>(sz, qty) its.
             if qty > 0
             then its @ [\<lparr>item_productId = productId selection,
                          item_productName = productName selection,
                          item_styleNumber = sn,
                          color = selectedColor selection,
                          item_size = sz,
                          quantity = qty\<rparr>]
             else its)
          (quantities selection) its"

definition getOrderItems :: "dashboard \<Rightarrow> OrderItem list" where
  "getOrderItems st =
     fold (\<lambda>selection its.
             let product = find (\<lambda>p. product_id p = productId selection) (products st);
                 sn = js_or (styleNumber selection)
                        (js_or (case product of Some p \<Rightarrow> product_styleNumber p | None \<Rightarrow> []) [])
             in push_sizes selection sn its)
          (map snd (selections st)) []"

text \<open>\<open>getOrderItems().reduce((sum, item) => sum + item.quantity, 0)\<close>\<close>

definition totalItems :: "dashboard \<Rightarrow> int" where
  "totalItems st = foldl (\<lambda>sum item. sum + quantity item) 0 (getOrderItems st)"

subsection \<open>The API service the dashboard calls (src/services/api.ts)\<close>

text \<open>
  A request body before \<open>JSON.stringify\<close>: an object is the list of its properties in the
  order the literal writes them. A property whose value is \<open>undefined\<close> is left out, as
  \<open>JSON.stringify\<close> leaves it out.
\<close>

datatype json = JString string | JNumber int | JArray "json list" | JObject "(string \<times> json) list"

text \<open>
  A call of \<open>fetch\<close>: method, path below \<open>API_BASE\<close> and body. The \<open>Authorization\<close> header
  is passed to the server beside it.
\<close>

record request =
  http_method :: string
  path :: string
  body :: json

text \<open>
  A response, as far as the service reads it: the status, the status text, and of the
  JSON body its \<open>message\<close> (empty when the body has none or is no JSON), the token pair
  under \<open>data\<close> (\<open>None\<close> when reading it throws) and the order \<open>mapOrder\<close> makes of
  \<open>json.data\<close>, or of the body when it has no \<open>data\<close> (\<open>Inl\<close> the message of the error when
  \<open>res.json()\<close> or \<open>mapOrder\<close> throws).
\<close>

record response =
  res_status :: int
  statusText :: string
  body_message :: string
  body_tokens :: "(string \<times> string) option"
  body_order :: "string + Order"

definition ok :: "response \<Rightarrow> bool" where
  "ok res = (200 \<le> res_status res \<and> res_status res \<le> 299)"

text \<open>What the service throws: an \<open>ApiError\<close>, or another error with its message.\<close>

datatype thrown = ApiError int string | Error string

fun message :: "thrown \<Rightarrow> string" where
  "message (ApiError s m) = m"
| "message (Error m) = m"

text \<open>
  The network and the server behind it: \<open>fetch\<close> gets the bearer token of the
  \<open>Authorization\<close> header, if any, and the request; it answers with a response or rejects
  with an error message, and the server moves on to a new state.
\<close>

type_synonym 'sv fetch = "string option \<Rightarrow> request \<Rightarrow> 'sv \<Rightarrow> (string + response) \<times> 'sv"

text \<open>What lies outside the component: the two tokens in \<open>localStorage\<close>, and the server.\<close>

record 'sv world =
  access_token :: "string option"
  refresh_token :: "string option"
  server :: 'sv

text \<open>
  What a handler does besides updating the state, in the order it does it. \<open>Navigate\<close> is
  an assignment to \<open>window.location.href\<close>.
\<close>

datatype event = Request request | Toast_error string | Toast_success string | Navigate string

definition requests_of :: "event list \<Rightarrow> request list" where
  "requests_of evs = concat (map (\<lambda>e. case e of Request r \<Rightarrow> [r] | _ \<Rightarrow> []) evs)"

text \<open>
  The assignment loads another document: the component and the state it holds in memory
  are gone once a handler has navigated.
\<close>

definition navigated :: "event list \<Rightarrow> bool" where
  "navigated evs = list_ex (\<lambda>e. case e of Navigate u \<Rightarrow> True | _ \<Rightarrow> False) evs"



text \<open>\<open>if (token) headers['Authorization'] = ...\<close>: no header for no token or an empty one.\<close>

definition bearer :: "'sv world \<Rightarrow> string option" where
  "bearer w = (case access_token w of None \<Rightarrow> None | Some t \<Rightarrow> if t \<noteq> [] then Some t else None)"

definition refresh_request :: "string \<Rightarrow> request" where
  "refresh_request refreshToken =
     \<lparr>http_method = ''POST'',
      path = ''/auth/refresh'',
      body = JObject [(''refreshToken'', JString refreshToken)]\<rparr>"

definition tryRefresh :: "'sv fetch \<Rightarrow> 'sv world \<Rightarrow> bool \<times> event list \<times> 'sv world" where
  "tryRefresh fetch w =
     (case refresh_token w of
        None \<Rightarrow> (False, [], w)
      | Some refreshToken \<Rightarrow>
          if refreshToken = [] then (False, [], w)
          else
            (case fetch None (refresh_request refreshToken) (server w) of
               (Inl err, sv) \<Rightarrow> (False, [Request (refresh_request refreshToken)], w\<lparr>server := sv\<rparr>)
             | (Inr res, sv) \<Rightarrow>
                 if \<not> ok res
                 then (False, [Request (refresh_request refreshToken)], w\<lparr>server := sv\<rparr>)
                 else
                   (case body_tokens res of
                      None \<Rightarrow> (False, [Request (refresh_request refreshToken)], w\<lparr>server := sv\<rparr>)
                    | Some (a, r) \<Rightarrow>
                        (True, [Request (refresh_request refreshToken)],
                         w\<lparr>access_token := Some a, refresh_token := Some r, server := sv\<rparr>))))"

text \<open>
  \<open>apiFetch(path, options, retry)\<close>, up to the response it hands on for reading: on a 401
  it refreshes the tokens and asks once more, or clears the tokens, sends the browser to
  \<open>/\<close> and throws.
\<close>

function apiFetch ::
  "'sv fetch \<Rightarrow> request \<Rightarrow> bool \<Rightarrow> 'sv world \<Rightarrow> (thrown + response) \<times> event list \<times> 'sv world" where
  "apiFetch fetch req retry w =
     (case fetch (bearer w) req (server w) of
        (Inl err, sv) \<Rightarrow> (Inl (Error err), [Request req], w\<lparr>server := sv\<rparr>)
      | (Inr res, sv) \<Rightarrow>
          if res_status res = 401 \<and> retry
          then
            (case tryRefresh fetch (w\<lparr>server := sv\<rparr>) of
               (True, evs, w1) \<Rightarrow>
                 (case apiFetch fetch req False w1 of
                    (r, evs2, w2) \<Rightarrow> (r, Request req # evs @ evs2, w2))
             | (False, evs, w1) \<Rightarrow>
                 (Inl (ApiError 401 ''Session expired''),
                  Request req # evs @ [Navigate ''/''],
                  w1\<lparr>access_token := None, refresh_token := None\<rparr>))
          else if \<not> ok res
          then (Inl (ApiError (res_status res) (js_or (body_message res) (statusText res))),
                [Request req], w\<lparr>server := sv\<rparr>)
          else (Inr res, [Request req], w\<lparr>server := sv\<rparr>))"
  by pat_completeness auto
termination
  by (relation "measure (\<lambda>(fetch, req, retry, w). if retry then 1 else 0)") auto

declare apiFetch.simps [simp del]

definition orderitem_json :: "OrderItem \<Rightarrow> json" where
  "orderitem_json i =
     JObject ([(''productId'', JString (item_productId i)),
               (''productName'', JString (item_productName i)),
               (''styleNumber'', JString (item_styleNumber i))] @
              (case color i of Some c \<Rightarrow> [(''color'', JString c)] | None \<Rightarrow> []) @
              [(''size'', JString (item_size i)),
               (''quantity'', JNumber (quantity i))])"

text \<open>The argument of \<open>createOrder\<close>.\<close>

record order_data =
  data_poNumber :: string
  data_items :: "OrderItem list"

definition createOrder_request :: "order_data \<Rightarrow> request" where
  "createOrder_request d =
     \<lparr>http_method = ''POST'',
      path = ''/orders'',
      body = JObject [(''poNumber'', JString (data_poNumber d)),
                      (''totalItems'', JNumber (foldl (\<lambda>sum i. sum + quantity i) 0 (data_items d))),
                      (''items'', JArray (map orderitem_json (data_items d)))]\<rparr>"

text \<open>Reading the order out of the response \<open>apiFetch\<close> hands on: \<open>res.json()\<close> and \<open>mapOrder\<close>.\<close>

definition read_order :: "thrown + response \<Rightarrow> thrown + Order" where
  "read_order r =
     (case r of
        Inl err \<Rightarrow> Inl err
      | Inr res \<Rightarrow> (case body_order res of Inl m \<Rightarrow> Inl (Error m) | Inr order \<Rightarrow> Inr order))"

definition createOrder ::
  "'sv fetch \<Rightarrow> order_data \<Rightarrow> 'sv world \<Rightarrow> (thrown + Order) \<times> event list \<times> 'sv world" where
  "createOrder fetch d w =
     (case apiFetch fetch (createOrder_request d) True w of
        (r, evs, w1) \<Rightarrow> (read_order r, evs, w1))"

definition updateOrderStatus_request :: "string \<Rightarrow> string \<Rightarrow> request" where
  "updateOrderStatus_request i s =
     \<lparr>http_method = ''PATCH'',
      path = ''/orders/'' @ i @ ''/status'',
      body = JObject [(''status'', JString s)]\<rparr>"

definition updateOrderStatus ::
  "'sv fetch \<Rightarrow> string \<Rightarrow> string \<Rightarrow> 'sv world \<Rightarrow> (thrown + Order) \<times> event list \<times> 'sv world" where
  "updateOrderStatus fetch i s w =
     (case apiFetch fetch (updateOrderStatus_request i s) True w of
        (r, evs, w1) \<Rightarrow> (read_order r, evs, w1))"

subsection \<open>The order submission workflow\<close>

text \<open>
  \<open>handleSubmitOrder\<close> is an \<open>async\<close> function with one \<open>await\<close>. \<open>submit_begin\<close> is what
  it does up to there: the state it leaves, its toasts, and the argument of the pending
  \<open>createOrder\<close> call, \<open>None\<close> when it has returned at one of the two checks.
\<close>

definition submit_begin :: "dashboard \<Rightarrow> dashboard \<times> event list \<times> order_data option" where
  "submit_begin st =
     (if totalItems st = 0
      then (st, [Toast_error ''Please add quantities to at least one product''], None)
      else if trim (poNumber st) = []
      then (st\<lparr>poError := ''PO Number is required''\<rparr>, [], None)
      else (st\<lparr>isSubmitting := True\<rparr>, [],
            Some \<lparr>data_poNumber = trim (poNumber st), data_items = getOrderItems st\<rparr>))"

text \<open>
  \<open>submit_settle\<close> is what it does once the call has settled: the rest of the \<open>try\<close>
  block, or the \<open>catch\<close> block, and then \<open>finally\<close>.
\<close>

definition submit_settle :: "dashboard \<Rightarrow> thrown + Order \<Rightarrow> dashboard \<times> event list" where
  "submit_settle st settled =
     (case settled of
        Inr order \<Rightarrow>
          (st\<lparr>lastOrderId := order_id order,
              lastPoNumber := poNumber st,
              selections := [],
              poNumber := [],
              poError := [],
              showConfirmation := True,
              isSubmitting := False\<rparr>,
           [Toast_success ''Order placed successfully!''])
      | Inl err \<Rightarrow>
          (st\<lparr>isSubmitting := False\<rparr>,
           [Toast_error (js_or (message err) ''Failed to place order'')]))"

text \<open>
  The whole handler: the component's state as its setters leave it, the events, and the
  world.
\<close>

definition handleSubmitOrder ::
  "'sv fetch \<Rightarrow> 'sv world \<Rightarrow> dashboard \<Rightarrow> dashboard \<times> event list \<times> 'sv world" where
  "handleSubmitOrder fetch w st =
     (case submit_begin st of
        (st1, evs, None) \<Rightarrow> (st1, evs, w)
      | (st1, evs, Some d) \<Rightarrow>
          (case createOrder fetch d w of
             (settled, evs1, w1) \<Rightarrow>
               (case submit_settle st1 settled of
                  (st2, evs2) \<Rightarrow> (st2, evs @ evs1 @ evs2, w1))))"

text \<open>
  The dashboard after a handler: the state its setters left, unless the handler has
  navigated, which discards the dashboard and its state.
\<close>

definition dashboard_after :: "dashboard \<times> event list \<times> 'sv world \<Rightarrow> dashboard option" where
  "dashboard_after out = (if navigated (fst (snd out)) then None else Some (fst out))"

subsection \<open>The order history\<close>

text \<open>
  \<open>Array.prototype.sort(compare)\<close>: a stable sort; \<open>compare a b \<le> 0\<close> keeps \<open>a\<close> before
  \<open>b\<close>. Each element is put in front of the sorted rest, behind the elements that must
  come before it.
\<close>

fun sort_insert :: "('a \<Rightarrow> 'a \<Rightarrow> int) \<Rightarrow> 'a \<Rightarrow> 'a list \<Rightarrow> 'a list" where
  "sort_insert compare a [] = [a]"
| "sort_insert compare a (b # bs) =
     (if compare a b \<le> 0 then a # b # bs else b # sort_insert compare a bs)"

definition js_sort :: "('a \<Rightarrow> 'a \<Rightarrow> int) \<Rightarrow> 'a list \<Rightarrow> 'a list" where
  "js_sort compare xs = foldr (sort_insert compare) xs []"

text \<open>
  \<open>loadOrders\<close>, given what \<open>fetchOrders\<close> returned or threw. \<open>new Date(d).getTime()\<close> of a
  \<open>Date\<close> is its own time value.
\<close>

definition loadOrders :: "thrown + Order list \<Rightarrow> dashboard \<Rightarrow> dashboard \<times> event list" where
  "loadOrders fetched st =
     (case fetched of
        Inr data \<Rightarrow>
          (st\<lparr>orders := js_sort (\<lambda>a b. getTime (createdAt b) - getTime (createdAt a)) data,
              ordersLoading := False\<rparr>, [])
      | Inl err \<Rightarrow>
          (st\<lparr>ordersLoading := False\<rparr>, [Toast_error ''Failed to load order history'']))"

section \<open>The admin order page (src/pages/admin/AdminOrders.tsx)\<close>

record admin =
  admin_orders :: "Order list"
  searchQuery :: string
  selectedOrder :: "Order option"

definition statusOptions :: "string list" where
  "statusOptions = [''pending'', ''confirmed'', ''processing'', ''shipped'', ''delivered'']"

definition handleStatusChange :: "string \<Rightarrow> string \<Rightarrow> admin \<Rightarrow> admin \<times> event list" where
  "handleStatusChange orderId newStatus st =
     (st\<lparr>admin_orders :=
           map (\<lambda>order. if order_id order = orderId then order\<lparr>status := newStatus\<rparr> else order)
             (admin_orders st),
         selectedOrder :=
           (case selectedOrder st of
              Some sel \<Rightarrow> if order_id sel = orderId then Some (sel\<lparr>status := newStatus\<rparr>) else Some sel
            | None \<Rightarrow> None)\<rparr>,
      [Toast_success ''Order status updated successfully''])"

subsection \<open>The CSV export\<close>

text \<open>
  \<open>format(date, 'yyyy-MM-dd')\<close> of date-fns, on a valid date: the year of the era, the
  month and the day of the month, each padded with zeros by \<open>addLeadingZeros\<close>.
\<close>

definition padStart :: "nat \<Rightarrow> char \<Rightarrow> string \<Rightarrow> string" where
  "padStart targetLength c s = replicate (targetLength - length s) c @ s"

definition addLeadingZeros :: "int \<Rightarrow> nat \<Rightarrow> string" where
  "addLeadingZeros number targetLength =
     (let output = padStart targetLength (CHR ''0'') (nat_toString (nat \<bar>number\<bar>))
      in if number < 0 then CHR ''-'' # output else output)"

definition format_yyyy_MM_dd :: "Date \<Rightarrow> string" where
  "format_yyyy_MM_dd d =
     (let signedYear = getFullYear d;
          year = (if signedYear > 0 then signedYear else 1 - signedYear)
      in addLeadingZeros year 4 @ ''-'' @ addLeadingZeros (int (getMonth d) + 1) 2 @ ''-'' @
         addLeadingZeros (int (getDate d)) 2)"

definition headers :: "string list" where
  "headers = [''Order ID'', ''Customer'', ''PO Number'', ''Items'', ''Status'', ''Date'']"

definition rows :: "Order list \<Rightarrow> string list list" where
  "rows filteredOrders =
     map (\<lambda>order. [order_id order,
                   customerName order,
                   order_poNumber order,
                   toString (order_totalItems order),
                   status order,
                   format_yyyy_MM_dd (createdAt order)])
       filteredOrders"

definition csvContent :: "Order list \<Rightarrow> string" where
  "csvContent filteredOrders =
     join [CHR 0x0A] (join '','' headers # map (join '','') (rows filteredOrders))"

text \<open>The download \<open>exportToExcel\<close> offers: file name and content, and its toast.\<close>

definition exportToExcel :: "Date \<Rightarrow> Order list \<Rightarrow> (string \<times> string) \<times> event list" where
  "exportToExcel now filteredOrders =
     ((''orders-'' @ format_yyyy_MM_dd now @ ''.csv'', csvContent filteredOrders),
      [Toast_success ''Orders exported successfully''])"

text \<open>\<open>text.split(d)\<close> at a one-character delimiter.\<close>

fun split_at :: "char \<Rightarrow> string \<Rightarrow> string list" where
  "split_at d [] = [[]]"
| "split_at d (c # cs) =
     (if c = d then [] # split_at d cs
      else (case split_at d cs of l # ls \<Rightarrow> (c # l) # ls | [] \<Rightarrow> [[c]]))"

section \<open>Example data\<close>

definition ex_P1 :: Product where
  "ex_P1 = \<lparr>product_id = ''P1'', product_name = ''Polo Shirt'', product_styleNumber = ''ST-100'',
            product_colors = [''navy'', ''white''], product_sizes = [''M'', ''L'']\<rparr>"

definition ex_P2 :: Product where
  "ex_P2 = \<lparr>product_id = ''P2'', product_name = ''Cap'', product_styleNumber = ''ST-200'',
            product_colors = [''black''], product_sizes = [''S'']\<rparr>"

text \<open>The dashboard after the catalog has loaded, before any edit.\<close>

definition ex_fresh :: dashboard where
  "ex_fresh = \<lparr>products = [ex_P1, ex_P2], selections = [], showConfirmation = False,
               poNumber = [], poError = [], isSubmitting = False, lastOrderId = [],
               lastPoNumber = [], orders = [], ordersLoading = False, expandedOrderId = None\<rparr>"

text \<open>
  Product P1 in navy with 5 of size M and 0 of size L, product P2 with 0 of size S, and
  the PO number typed with blanks around it.
\<close>

definition ex_cart :: dashboard where
  "ex_cart =
     (handleQuantityChange ex_P2 ''S'' ''0''
       (handleQuantityChange ex_P1 ''L'' ''0''
         (handleQuantityChange ex_P1 ''M'' ''5''
           (handleColorChange ex_P1 ''navy'' ex_fresh))))\<lparr>poNumber := '' PO-100 ''\<rparr>"

text \<open>A quantity field into which \<open>-5\<close> was typed.\<close>

definition ex_negative :: dashboard where
  "ex_negative = handleQuantityChange ex_P1 ''L'' ''3'' (handleQuantityChange ex_P1 ''M'' ''-5'' ex_fresh)"

text \<open>Three dates, with the calendar fields of a browser in the UTC zone.\<close>

definition ex_T1 :: Date where
  "ex_T1 = \<lparr>getTime = 1704067200000, getFullYear = 2024, getMonth = 0, getDate = 1\<rparr>"

definition ex_T2 :: Date where
  "ex_T2 = \<lparr>getTime = 1709251200000, getFullYear = 2024, getMonth = 2, getDate = 1\<rparr>"

definition ex_T3 :: Date where
  "ex_T3 = \<lparr>getTime = 1706745600000, getFullYear = 2024, getMonth = 1, getDate = 1\<rparr>"

definition ex_order :: "string \<Rightarrow> string \<Rightarrow> string \<Rightarrow> Date \<Rightarrow> Order" where
  "ex_order i customer s d =
     \<lparr>order_id = i, customerId = ''U1'', customerName = customer,
      customerEmail = ''buyer@example.com'', order_poNumber = ''PO-100'',
      items = [\<lparr>item_productId = ''P1'', item_productName = ''Polo Shirt'',
                item_styleNumber = ''ST-100'', color = Some ''navy'', item_size = ''M'',
                quantity = 5\<rparr>],
      status = s, order_totalItems = 5, createdAt = d\<rparr>"

text \<open>The tokens of a signed-in customer, and a server that keeps no state.\<close>

definition ex_world :: "unit world" where
  "ex_world = \<lparr>access_token = Some ''old-access'', refresh_token = Some ''old-refresh'', server = ()\<rparr>"

text \<open>An answer with a status and nothing to read in its body.\<close>

definition ex_response :: "int \<Rightarrow> string \<Rightarrow> response" where
  "ex_response s t =
     \<lparr>res_status = s, statusText = t, body_message = [], body_tokens = None,
      body_order = Inl ''Unexpected end of JSON input''\<rparr>"

definition ex_created :: response where
  "ex_created =
     (ex_response 201 ''Created'')\<lparr>body_order := Inr (ex_order ''ORD-1'' ''Acme'' ''pending'' ex_T1)\<rparr>"

text \<open>A server that accepts every order, and one that answers every request with an error.\<close>

definition ex_fetch_ok :: "unit fetch" where
  "ex_fetch_ok token r sv = (Inr ex_created, sv)"

definition ex_fetch_down :: "unit fetch" where
  "ex_fetch_down token r sv =
     (Inr ((ex_response 500 ''Internal Server Error'')\<lparr>body_message := ''Database unavailable''\<rparr>), sv)"


text \<open>A server for which the session has ended: it answers 401 to every request.\<close>

definition ex_fetch_expired :: "unit fetch" where
  "ex_fetch_expired token r sv = (Inr (ex_response 401 ''Unauthorized''), sv)"

text \<open>The admin page with two orders, the detail view open on the first.\<close>

definition ex_admin :: admin where
  "ex_admin =
     \<lparr>admin_orders = [ex_order ''ORD-1'' ''Acme, Inc.'' ''pending'' ex_T1,
                      ex_order ''ORD-2'' ''Globex'' ''confirmed'' ex_T2],
      searchQuery = [],
      selectedOrder = Some (ex_order ''ORD-1'' ''Acme, Inc.'' ''pending'' ex_T1)\<rparr>"

section \<open>Evaluating the example data\<close>

lemma parseInt_or_0_5: "parseInt_or_0 ''5'' = 5"
  by (simp add: parseInt_or_0_def parseInt_def is_js_whitespace_def radix_value_def digit_value_def)

lemma parseInt_or_0_3: "parseInt_or_0 ''3'' = 3"
  by (simp add: parseInt_or_0_def parseInt_def is_js_whitespace_def radix_value_def digit_value_def)

lemma parseInt_or_0_0: "parseInt_or_0 ''0'' = 0"
  by (simp add: parseInt_or_0_def parseInt_def is_js_whitespace_def radix_value_def digit_value_def)

lemma parseInt_or_0_neg5: "parseInt_or_0 ''-5'' = - 5"
  by (simp add: parseInt_or_0_def parseInt_def is_js_whitespace_def radix_value_def digit_value_def)

lemma not_index_keys:
  "\<not> is_array_index ''M''" "\<not> is_array_index ''L''" "\<not> is_array_index ''S''"
  "\<not> is_array_index ''P1''" "\<not> is_array_index ''P2''"
  by (simp_all add: is_array_index_def is_digit_def)

lemma selections_ex_cart:
  "selections ex_cart =
     [(''P1'', \<lparr>productId = ''P1'', productName = ''Polo Shirt'', styleNumber = ''ST-100'',
               selectedColor = Some ''navy'', quantities = [(''M'', 5), (''L'', 0)]\<rparr>),
      (''P2'', \<lparr>productId = ''P2'', productName = ''Cap'', styleNumber = ''ST-200'',
               selectedColor = Some ''black'', quantities = [(''S'', 0)]\<rparr>)]"
  by (simp add: ex_cart_def ex_fresh_def ex_P1_def ex_P2_def handleQuantityChange_def
      handleColorChange_def obj_set_def obj_get_def first_color_def not_index_keys
      parseInt_or_0_5 parseInt_or_0_0)

lemma selections_ex_negative:
  "selections ex_negative =
     [(''P1'', \<lparr>productId = ''P1'', productName = ''Polo Shirt'', styleNumber = ''ST-100'',
               selectedColor = Some ''navy'', quantities = [(''M'', - 5), (''L'', 3)]\<rparr>)]"
  by (simp add: ex_negative_def ex_fresh_def ex_P1_def handleQuantityChange_def
      obj_set_def obj_get_def first_color_def not_index_keys
      parseInt_or_0_neg5 parseInt_or_0_3)

section \<open>The order item projection and the total\<close>

lemma fold_push_positive:
  "fold (\<lambda>(sz, qty) its. if 0 < (qty::int) then its @ [mk sz qty] else its) qs its =
     its @ map (\<lambda>(sz, qty). mk sz qty) (filter (\<lambda>(sz, qty). 0 < qty) qs)"
  by (induction qs arbitrary: its) auto

lemma fold_append_each: "fold (\<lambda>x its. its @ f x) xs its = its @ concat (map f xs)"
  by (induction xs arbitrary: its) auto

lemma push_sizes_append:
  "push_sizes selection sn its =
     its @ map (\<lambda>(sz, qty). \<lparr>item_productId = productId selection,
                              item_productName = productName selection,
                              item_styleNumber = sn,
                              color = selectedColor selection,
                              item_size = sz,
                              quantity = qty\<rparr>)
            (filter (\<lambda>(sz, qty). 0 < qty) (quantities selection))"
  unfolding push_sizes_def by (rule fold_push_positive)

lemma js_or_chain: "js_or a (js_or b []) = (if a \<noteq> [] then a else b)"
  by (simp add: js_or_def)

lemma getOrderItems_concat:
  "getOrderItems st =
     concat (map (\<lambda>selection.
                    map (\<lambda>(sz, qty).
                           \<lparr>item_productId = productId selection,
                            item_productName = productName selection,
                            item_styleNumber =
                              (if styleNumber selection \<noteq> [] then styleNumber selection
                               else case find (\<lambda>p. product_id p = productId selection) (products st) of
                                      Some p \<Rightarrow> product_styleNumber p
                                    | None \<Rightarrow> []),
                            color = selectedColor selection,
                            item_size = sz,
                            quantity = qty\<rparr>)
                      (filter (\<lambda>(sz, qty). 0 < qty) (quantities selection)))
               (map snd (selections st)))"
  unfolding getOrderItems_def Let_def push_sizes_append
  by (simp add: fold_append_each js_or_chain)

lemma foldl_add_quantity:
  "foldl (\<lambda>sum item. sum + quantity item) a its = a + sum_list (map quantity its)"
  by (induction its arbitrary: a) auto

lemma sum_positive_entries:
  "sum_list (map snd (filter (\<lambda>p. 0 < snd p) qs)) =
   sum_list (map (\<lambda>p. if 0 < snd p then snd p else (0::int)) qs)"
  by (induction qs) auto

lemma sum_list_map_concat:
  "sum_list (map g (concat (map f xs))) = sum_list (map (\<lambda>x. sum_list (map g (f x))) xs)"
  for g :: "'b \<Rightarrow> int"
  by (induction xs) auto

lemma totalItems_positive_part:
  "totalItems st =
     sum_list (map (\<lambda>selection. sum_list (map (\<lambda>(sz, qty). if 0 < qty then qty else 0) (quantities selection)))
                 (map snd (selections st)))"
  unfolding totalItems_def foldl_add_quantity getOrderItems_concat
  by (simp add: sum_list_map_concat comp_def case_prod_unfold sum_positive_entries)


section \<open>Dictionary updates and the colour handler\<close>

lemma map_of_replace:
  "map_of (map (\<lambda>(k', v'). if k' = k then (k', v) else (k', v')) obj) k' =
     (if k' = k then (case map_of obj k of None \<Rightarrow> None | Some w \<Rightarrow> Some v) else map_of obj k')"
  by (induction obj) auto

lemma map_of_obj_insert_index:
  "map_of obj k = None \<Longrightarrow>
   map_of (obj_insert_index k v obj) k' = (if k' = k then Some v else map_of obj k')"
  by (induction obj) (auto split: if_splits)

lemma map_of_append_new:
  "map_of obj k = None \<Longrightarrow>
   map_of (obj @ [(k, v)]) k' = (if k' = k then Some v else map_of obj k')"
  by (induction obj) (auto split: if_splits)

lemma obj_get_obj_set: "obj_get (obj_set k v obj) k' = (if k' = k then Some v else obj_get obj k')"
proof (cases "map_of obj k")
  case None
  then show ?thesis
    by (simp add: obj_get_def obj_set_def map_of_obj_insert_index map_of_append_new
        del: map_of_append)
next
  case (Some w)
  then show ?thesis
    by (simp add: obj_get_def obj_set_def map_of_replace)
qed

text \<open>
  C9. For every product and colour, \<open>handleColorChange\<close> (the spec's \<open>setColor\<close>) leaves
  the quantities of the product's selection as they were when the selection exists,
  creates the selection with no quantities when it does not, sets its colour, and changes
  the selection of no other product.
\<close>

theorem handleColorChange_keeps_quantities:
  "(\<exists>sel. obj_get (selections (handleColorChange product c st)) (product_id product) = Some sel \<and>
          selectedColor sel = Some c \<and>
          quantities sel =
            (case obj_get (selections st) (product_id product) of
               Some prev \<Rightarrow> quantities prev
             | None \<Rightarrow> [])) \<and>
   (\<forall>k. k \<noteq> product_id product \<longrightarrow>
        obj_get (selections (handleColorChange product c st)) k = obj_get (selections st) k)"
  by (simp add: handleColorChange_def obj_get_obj_set)

theorem handleColorChange_keeps_quantities_witness:
  "(\<exists>sel. obj_get (selections (handleColorChange ex_P1 ''white'' ex_cart)) ''P1'' = Some sel \<and>
          selectedColor sel = Some ''white'' \<and> quantities sel = [(''M'', 5), (''L'', 0)]) \<and>
   (\<exists>sel. obj_get (selections (handleColorChange ex_P1 ''white'' ex_fresh)) ''P1'' = Some sel \<and>
          selectedColor sel = Some ''white'' \<and> quantities sel = []) \<and>
   obj_get (selections (handleColorChange ex_P1 ''white'' ex_cart)) ''P2'' =
     Some \<lparr>productId = ''P2'', productName = ''Cap'', styleNumber = ''ST-200'',
           selectedColor = Some ''black'', quantities = [(''S'', 0)]\<rparr>"
  using handleColorChange_keeps_quantities [of ex_P1 "''white''" ex_cart]
    handleColorChange_keeps_quantities [of ex_P1 "''white''" ex_fresh]
  by (simp add: selections_ex_cart obj_get_def ex_P1_def ex_fresh_def)

section \<open>Claims about the projection\<close>

text \<open>
  C5. For every state, \<open>getOrderItems\<close> (the spec's \<open>projectItems\<close>) returns, selection
  by selection and size by size, exactly one item for each stored quantity greater than 0
  and none for the others; the item's style number is the selection's, or the live
  product's when the selection's is blank. A product whose selections hold only zero
  quantities has no item in the result.
\<close>

theorem getOrderItems_one_item_per_positive_quantity:
  "getOrderItems st =
     concat (map (\<lambda>selection.
                    map (\<lambda>(sz, qty).
                           \<lparr>item_productId = productId selection,
                            item_productName = productName selection,
                            item_styleNumber =
                              (if styleNumber selection \<noteq> [] then styleNumber selection
                               else case find (\<lambda>p. product_id p = productId selection) (products st) of
                                      Some p \<Rightarrow> product_styleNumber p
                                    | None \<Rightarrow> []),
                            color = selectedColor selection,
                            item_size = sz,
                            quantity = qty\<rparr>)
                      (filter (\<lambda>(sz, qty). 0 < qty) (quantities selection)))
               (map snd (selections st))) \<and>
   length (getOrderItems st) =
     sum_list (map (\<lambda>selection. length (filter (\<lambda>(sz, qty). 0 < qty) (quantities selection)))
                 (map snd (selections st))) \<and>
   ((\<forall>selection \<in> set (map snd (selections st)).
        productId selection = pid \<longrightarrow> (\<forall>(sz, qty) \<in> set (quantities selection). qty = 0)) \<longrightarrow>
    filter (\<lambda>item. item_productId item = pid) (getOrderItems st) = [])"
proof (intro conjI impI)
  show "getOrderItems st =
     concat (map (\<lambda>selection.
                    map (\<lambda>(sz, qty).
                           \<lparr>item_productId = productId selection,
                            item_productName = productName selection,
                            item_styleNumber =
                              (if styleNumber selection \<noteq> [] then styleNumber selection
                               else case find (\<lambda>p. product_id p = productId selection) (products st) of
                                      Some p \<Rightarrow> product_styleNumber p
                                    | None \<Rightarrow> []),
                            color = selectedColor selection,
                            item_size = sz,
                            quantity = qty\<rparr>)
                      (filter (\<lambda>(sz, qty). 0 < qty) (quantities selection)))
               (map snd (selections st)))"
    by (rule getOrderItems_concat)
next
  show "length (getOrderItems st) =
     sum_list (map (\<lambda>selection. length (filter (\<lambda>(sz, qty). 0 < qty) (quantities selection)))
                 (map snd (selections st)))"
    by (simp add: getOrderItems_concat length_concat comp_def)
next
  assume zero: "\<forall>selection \<in> set (map snd (selections st)).
        productId selection = pid \<longrightarrow> (\<forall>(sz, qty) \<in> set (quantities selection). qty = 0)"
  show "filter (\<lambda>item. item_productId item = pid) (getOrderItems st) = []"
    unfolding getOrderItems_concat filter_empty_conv using zero by fastforce
qed

lemma getOrderItems_ex_cart:
  "getOrderItems ex_cart =
     [\<lparr>item_productId = ''P1'', item_productName = ''Polo Shirt'', item_styleNumber = ''ST-100'',
       color = Some ''navy'', item_size = ''M'', quantity = 5\<rparr>]"
  by (simp add: getOrderItems_concat selections_ex_cart)

theorem getOrderItems_one_item_per_positive_quantity_witness:
  "getOrderItems ex_cart =
     [\<lparr>item_productId = ''P1'', item_productName = ''Polo Shirt'', item_styleNumber = ''ST-100'',
       color = Some ''navy'', item_size = ''M'', quantity = 5\<rparr>] \<and>
   length (getOrderItems ex_cart) = 1 \<and>
   filter (\<lambda>item. item_productId item = ''P2'') (getOrderItems ex_cart) = []"
  using getOrderItems_one_item_per_positive_quantity [of ex_cart "''P2''"]
  by (simp add: selections_ex_cart)

text \<open>
  C6. For every state, \<open>totalItems\<close> (the spec's \<open>totalQuantity\<close>) is the sum of the
  quantities of the items \<open>getOrderItems\<close> returns.
\<close>

theorem totalItems_is_sum_of_projection:
  "totalItems st = sum_list (map quantity (getOrderItems st))"
  by (simp add: totalItems_def foldl_add_quantity)

text \<open>
  C10. For every state, also one in which a negative quantity is stored, every item
  \<open>getOrderItems\<close> returns has a quantity greater than 0, and the total counts the
  positive stored quantities only.
\<close>

theorem projected_quantities_positive:
  "(\<forall>item \<in> set (getOrderItems st). 0 < quantity item) \<and>
   totalItems st =
     sum_list (map (\<lambda>selection.
                      sum_list (map (\<lambda>(sz, qty). if 0 < qty then qty else 0) (quantities selection)))
                 (map snd (selections st))) \<and>
   0 \<le> totalItems st"
proof (intro conjI)
  show pos: "\<forall>item \<in> set (getOrderItems st). 0 < quantity item"
    unfolding getOrderItems_concat by auto
  show "totalItems st =
     sum_list (map (\<lambda>selection.
                      sum_list (map (\<lambda>(sz, qty). if 0 < qty then qty else 0) (quantities selection)))
                 (map snd (selections st)))"
    by (rule totalItems_positive_part)
  have "0 \<le> sum_list (map quantity (getOrderItems st))"
    using pos by (intro sum_list_nonneg) auto
  then show "0 \<le> totalItems st"
    by (simp add: totalItems_def foldl_add_quantity)
qed

theorem projected_quantities_positive_witness:
  "map (quantities \<circ> snd) (selections ex_negative) = [[(''M'', - 5), (''L'', 3)]] \<and>
   map (\<lambda>item. (item_size item, quantity item)) (getOrderItems ex_negative) = [(''L'', 3)] \<and>
   totalItems ex_negative = 3"
  using projected_quantities_positive [of ex_negative]
  by (simp add: selections_ex_negative getOrderItems_concat)

section \<open>The order submission workflow\<close>

lemma trim_empty_iff: "trim s = [] \<longleftrightarrow> (\<forall>c \<in> set s. is_js_whitespace c)"
proof -
  have "(\<forall>c \<in> set (dropWhile is_js_whitespace s). is_js_whitespace c) \<longleftrightarrow>
        (\<forall>c \<in> set s. is_js_whitespace c)"
  proof
    assume rest: "\<forall>c \<in> set (dropWhile is_js_whitespace s). is_js_whitespace c"
    have "set s = set (takeWhile is_js_whitespace s) \<union> set (dropWhile is_js_whitespace s)"
      by (metis set_append takeWhile_dropWhile_id)
    then show "\<forall>c \<in> set s. is_js_whitespace c"
      using rest by (auto dest: set_takeWhileD)
  next
    assume "\<forall>c \<in> set s. is_js_whitespace c"
    then show "\<forall>c \<in> set (dropWhile is_js_whitespace s). is_js_whitespace c"
      by (auto dest: set_dropWhileD)
  qed
  then show ?thesis
    by (simp add: trim_def)
qed

lemma trim_ex_po: "trim '' PO-100 '' = ''PO-100''"
  by (simp add: trim_def is_js_whitespace_def)

lemma poNumber_ex_cart: "poNumber ex_cart = '' PO-100 ''"
  by (simp add: ex_cart_def)

lemma submit_begin_rejects:
  "totalItems st = 0 \<Longrightarrow>
     submit_begin st = (st, [Toast_error ''Please add quantities to at least one product''], None)"
  "totalItems st \<noteq> 0 \<Longrightarrow> trim (poNumber st) = [] \<Longrightarrow>
     submit_begin st = (st\<lparr>poError := ''PO Number is required''\<rparr>, [], None)"
  by (simp_all add: submit_begin_def)

lemma submit_begin_accepts:
  "totalItems st \<noteq> 0 \<Longrightarrow> trim (poNumber st) \<noteq> [] \<Longrightarrow>
     submit_begin st =
       (st\<lparr>isSubmitting := True\<rparr>, [],
        Some \<lparr>data_poNumber = trim (poNumber st), data_items = getOrderItems st\<rparr>)"
  by (simp add: submit_begin_def)

lemma handleSubmitOrder_rejects:
  "totalItems st = 0 \<Longrightarrow>
     handleSubmitOrder fetch w st =
       (st, [Toast_error ''Please add quantities to at least one product''], w)"
  "totalItems st \<noteq> 0 \<Longrightarrow> trim (poNumber st) = [] \<Longrightarrow>
     handleSubmitOrder fetch w st = (st\<lparr>poError := ''PO Number is required''\<rparr>, [], w)"
  by (simp_all add: handleSubmitOrder_def submit_begin_rejects)

lemma handleSubmitOrder_accepts:
  assumes "totalItems st \<noteq> 0" and "trim (poNumber st) \<noteq> []"
    and "createOrder fetch \<lparr>data_poNumber = trim (poNumber st), data_items = getOrderItems st\<rparr> w =
           (settled, evs, w1)"
  shows "handleSubmitOrder fetch w st =
     (case settled of
        Inr order \<Rightarrow>
          (st\<lparr>lastOrderId := order_id order, lastPoNumber := poNumber st, selections := [],
              poNumber := [], poError := [], showConfirmation := True, isSubmitting := False\<rparr>,
           evs @ [Toast_success ''Order placed successfully!''], w1)
      | Inl err \<Rightarrow>
          (st\<lparr>isSubmitting := False\<rparr>,
           evs @ [Toast_error (js_or (message err) ''Failed to place order'')], w1))"
  using assms
  by (simp add: handleSubmitOrder_def submit_begin_accepts submit_settle_def split: sum.splits)

subsection \<open>What \<open>apiFetch\<close> does, case by case\<close>

lemma apiFetch_rejected:
  "fetch (bearer w) req (server w) = (Inl err, sv) \<Longrightarrow>
   apiFetch fetch req retry w = (Inl (Error err), [Request req], w\<lparr>server := sv\<rparr>)"
  by (simp add: apiFetch.simps [of fetch req retry w])

lemma apiFetch_answered:
  "fetch (bearer w) req (server w) = (Inr res, sv) \<Longrightarrow> res_status res \<noteq> 401 \<Longrightarrow>
   apiFetch fetch req retry w =
     (if \<not> ok res
      then (Inl (ApiError (res_status res) (js_or (body_message res) (statusText res))),
            [Request req], w\<lparr>server := sv\<rparr>)
      else (Inr res, [Request req], w\<lparr>server := sv\<rparr>))"
  by (simp add: apiFetch.simps [of fetch req retry w])


lemma apiFetch_expired:
  "fetch (bearer w) req (server w) = (Inr res, sv) \<Longrightarrow> res_status res = 401 \<Longrightarrow>
   tryRefresh fetch (w\<lparr>server := sv\<rparr>) = (False, evs, w1) \<Longrightarrow>
   apiFetch fetch req True w =
     (Inl (ApiError 401 ''Session expired''), Request req # evs @ [Navigate ''/''],
      w1\<lparr>access_token := None, refresh_token := None\<rparr>)"
  by (simp add: apiFetch.simps [of fetch req True w])

lemma apiFetch_refreshed:
  "fetch (bearer w) req (server w) = (Inr res, sv) \<Longrightarrow> res_status res = 401 \<Longrightarrow>
   tryRefresh fetch (w\<lparr>server := sv\<rparr>) = (True, evs, w1) \<Longrightarrow>
   apiFetch fetch req False w1 = (r, evs2, w2) \<Longrightarrow>
   apiFetch fetch req True w = (r, Request req # evs @ evs2, w2)"
  by (simp add: apiFetch.simps [of fetch req True w])

lemma tryRefresh_events:
  "tryRefresh fetch w = (b, evs, w1) \<Longrightarrow>
   evs = [] \<or> (\<exists>refreshToken. evs = [Request (refresh_request refreshToken)])"
  by (auto simp: tryRefresh_def split: option.splits if_splits prod.splits sum.splits)

lemma apiFetch_once_events:
  "apiFetch fetch req False w = (r, evs, w1) \<Longrightarrow> evs = [Request req]"
  by (cases "fetch (bearer w) req (server w)")
     (auto simp: apiFetch.simps [of fetch req False w] split: sum.splits if_splits)


lemma tryRefresh_succeeds_iff:
  "fst (tryRefresh fetch w) \<longleftrightarrow>
     (\<exists>refreshToken res sv.
        refresh_token w = Some refreshToken \<and> refreshToken \<noteq> [] \<and>
        fetch None (refresh_request refreshToken) (server w) = (Inr res, sv) \<and>
        ok res \<and> body_tokens res \<noteq> None)"
  by (auto simp: tryRefresh_def split: option.splits if_splits prod.splits sum.splits)

lemma tryRefresh_refreshed:
  "tryRefresh fetch w = (True, evs, w1) \<Longrightarrow> \<exists>refreshToken. evs = [Request (refresh_request refreshToken)]"
  by (auto simp: tryRefresh_def split: option.splits if_splits prod.splits sum.splits)

lemma requests_of_simps:
  "requests_of [] = []"
  "requests_of (Request r # evs) = r # requests_of evs"
  "requests_of (Toast_error m # evs) = requests_of evs"
  "requests_of (Toast_success m # evs) = requests_of evs"
  "requests_of (Navigate u # evs) = requests_of evs"
  "requests_of (evs @ evs') = requests_of evs @ requests_of evs'"
  by (simp_all add: requests_of_def)

lemma navigated_simps:
  "navigated [] = False"
  "navigated (Request r # evs) = navigated evs"
  "navigated (Toast_error m # evs) = navigated evs"
  "navigated (Toast_success m # evs) = navigated evs"
  "navigated (Navigate u # evs) = True"
  "navigated (evs @ evs') = (navigated evs \<or> navigated evs')"
  by (simp_all add: navigated_def)

lemma apiFetch_cases:
  assumes run: "apiFetch fetch req True w = (r, evs, w1)"
  obtains
    (rejected) err sv where
      "fetch (bearer w) req (server w) = (Inl err, sv)"
      "r = Inl (Error err)" "evs = [Request req]" "w1 = w\<lparr>server := sv\<rparr>"
  | (answered) res sv where
      "fetch (bearer w) req (server w) = (Inr res, sv)" "res_status res \<noteq> 401"
      "r = (if \<not> ok res
            then Inl (ApiError (res_status res) (js_or (body_message res) (statusText res)))
            else Inr res)"
      "evs = [Request req]" "w1 = w\<lparr>server := sv\<rparr>"
  | (expired) res sv evs0 w0 where
      "fetch (bearer w) req (server w) = (Inr res, sv)" "res_status res = 401"
      "tryRefresh fetch (w\<lparr>server := sv\<rparr>) = (False, evs0, w0)"
      "r = Inl (ApiError 401 ''Session expired'')" "evs = Request req # evs0 @ [Navigate ''/'']"
      "w1 = w0\<lparr>access_token := None, refresh_token := None\<rparr>"
  | (refreshed) res sv refreshToken w0 where
      "fetch (bearer w) req (server w) = (Inr res, sv)" "res_status res = 401"
      "tryRefresh fetch (w\<lparr>server := sv\<rparr>) = (True, [Request (refresh_request refreshToken)], w0)"
      "apiFetch fetch req False w0 = (r, [Request req], w1)"
      "evs = [Request req, Request (refresh_request refreshToken), Request req]"
proof (cases "fetch (bearer w) req (server w)")
  case (Pair answer sv)
  show ?thesis
  proof (cases answer)
    case (Inl err)
    with Pair run rejected show ?thesis
      by (simp add: apiFetch_rejected)
  next
    case (Inr res)
    show ?thesis
    proof (cases "res_status res = 401")
      case False
      with Pair Inr run answered [of res sv] show ?thesis
        by (simp add: apiFetch_answered split: if_splits)
    next
      case True
      obtain b evs0 w0 where refresh: "tryRefresh fetch (w\<lparr>server := sv\<rparr>) = (b, evs0, w0)"
        by (cases "tryRefresh fetch (w\<lparr>server := sv\<rparr>)") auto
      show ?thesis
      proof (cases b)
        case False
        with Pair Inr True refresh run expired [of res sv evs0 w0] show ?thesis
          by (simp add: apiFetch_expired)
      next
        case b: True
        obtain r2 evs2 w2 where again: "apiFetch fetch req False w0 = (r2, evs2, w2)"
          by (cases "apiFetch fetch req False w0") auto
        then have evs2: "evs2 = [Request req]"
          by (rule apiFetch_once_events)
        from refresh b have "tryRefresh fetch (w\<lparr>server := sv\<rparr>) = (True, evs0, w0)"
          by simp
        then obtain refreshToken where evs0: "evs0 = [Request (refresh_request refreshToken)]"
          using tryRefresh_refreshed by blast
        from Pair Inr True refresh b again have
          "apiFetch fetch req True w = (r2, Request req # evs0 @ evs2, w2)"
          by (simp add: apiFetch_refreshed)
        with run have "r = r2" "evs = Request req # evs0 @ evs2" "w1 = w2"
          by simp_all
        with Pair Inr True refresh b again evs0 evs2 refreshed [of res sv refreshToken w0]
        show ?thesis
          by simp
      qed
    qed
  qed
qed

lemma tryRefresh_not_navigated: "tryRefresh fetch w = (b, evs, w1) \<Longrightarrow> \<not> navigated evs"
  using tryRefresh_events [of fetch w b evs w1] by (auto simp: navigated_simps)


subsection \<open>\<open>createOrder\<close> on the example servers\<close>

lemma createOrder_result:
  "apiFetch fetch (createOrder_request d) True w = (r, evs, w1) \<Longrightarrow>
   createOrder fetch d w = (read_order r, evs, w1)"
  by (simp add: createOrder_def)

lemma read_order_thrown: "read_order (Inl err) = Inl err"
  by (simp add: read_order_def)

lemma ex_world_fields:
  "bearer ex_world = Some ''old-access''" "server ex_world = ()"
  "refresh_token ex_world = Some ''old-refresh''" "ex_world\<lparr>server := ()\<rparr> = ex_world"
  by (simp_all add: ex_world_def bearer_def)

lemma ex_response_fields:
  "res_status (ex_response s t) = s" "statusText (ex_response s t) = t"
  "body_message (ex_response s t) = []" "body_tokens (ex_response s t) = None"
  "res_status ex_created = 201" "ok ex_created"
  "body_order ex_created = Inr (ex_order ''ORD-1'' ''Acme'' ''pending'' ex_T1)"
  by (simp_all add: ex_response_def ex_created_def ok_def)

lemma createOrder_ex_fetch_ok:
  "createOrder ex_fetch_ok d ex_world =
     (Inr (ex_order ''ORD-1'' ''Acme'' ''pending'' ex_T1), [Request (createOrder_request d)], ex_world)"
proof -
  have "ex_fetch_ok (bearer ex_world) (createOrder_request d) (server ex_world) = (Inr ex_created, ())"
    by (simp add: ex_fetch_ok_def)
  then have "apiFetch ex_fetch_ok (createOrder_request d) True ex_world =
      (Inr ex_created, [Request (createOrder_request d)], ex_world)"
    by (simp add: apiFetch_answered ex_response_fields ex_world_fields)
  then show ?thesis
    by (simp add: createOrder_def read_order_def ex_response_fields)
qed

lemma createOrder_ex_fetch_down:
  "createOrder ex_fetch_down d ex_world =
     (Inl (ApiError 500 ''Database unavailable''), [Request (createOrder_request d)], ex_world)"
proof -
  have "ex_fetch_down (bearer ex_world) (createOrder_request d) (server ex_world) =
      (Inr ((ex_response 500 ''Internal Server Error'')\<lparr>body_message := ''Database unavailable''\<rparr>), ())"
    by (simp add: ex_fetch_down_def)
  then have "apiFetch ex_fetch_down (createOrder_request d) True ex_world =
      (Inl (ApiError 500 ''Database unavailable''), [Request (createOrder_request d)], ex_world)"
    by (simp add: apiFetch_answered ex_response_fields ex_world_fields ok_def js_or_def)
  then show ?thesis
    by (simp add: createOrder_def read_order_def)
qed

lemma tryRefresh_ex_fetch_expired:
  "tryRefresh ex_fetch_expired ex_world =
     (False, [Request (refresh_request ''old-refresh'')], ex_world)"
  by (simp add: tryRefresh_def ex_fetch_expired_def ex_world_fields ex_response_fields ok_def)

lemma createOrder_ex_fetch_expired:
  "createOrder ex_fetch_expired d ex_world =
     (Inl (ApiError 401 ''Session expired''),
      [Request (createOrder_request d), Request (refresh_request ''old-refresh''), Navigate ''/''],
      ex_world\<lparr>access_token := None, refresh_token := None\<rparr>)"
proof -
  have "ex_fetch_expired (bearer ex_world) (createOrder_request d) (server ex_world) =
      (Inr (ex_response 401 ''Unauthorized''), ())"
    by (simp add: ex_fetch_expired_def)
  then have "apiFetch ex_fetch_expired (createOrder_request d) True ex_world =
      (Inl (ApiError 401 ''Session expired''),
       Request (createOrder_request d) # [Request (refresh_request ''old-refresh'')] @ [Navigate ''/''],
       ex_world\<lparr>access_token := None, refresh_token := None\<rparr>)"
    by (rule apiFetch_expired)
       (simp_all add: ex_response_fields ex_world_fields tryRefresh_ex_fetch_expired)
  then show ?thesis
    by (simp add: createOrder_def read_order_def)
qed





subsection \<open>The requests of \<open>createOrder\<close>, and when it navigates\<close>

lemma createOrder_run:
  obtains r evs w1 where
    "apiFetch fetch (createOrder_request d) True w = (r, evs, w1)"
    "createOrder fetch d w = (read_order r, evs, w1)"
proof -
  obtain r evs w1 where "apiFetch fetch (createOrder_request d) True w = (r, evs, w1)"
    by (cases "apiFetch fetch (createOrder_request d) True w") auto
  then show ?thesis
    using that createOrder_result by blast
qed


lemma createOrder_navigated:
  assumes "createOrder fetch d w = (settled, evs, w1)"
  shows "navigated evs \<longleftrightarrow>
           (\<exists>res sv. fetch (bearer w) (createOrder_request d) (server w) = (Inr res, sv) \<and>
                     res_status res = 401 \<and> \<not> fst (tryRefresh fetch (w\<lparr>server := sv\<rparr>)))"
    and "navigated evs \<Longrightarrow>
           settled = Inl (ApiError 401 ''Session expired'') \<and>
           access_token w1 = None \<and> refresh_token w1 = None"
proof -
  obtain r evs' w1' where run: "apiFetch fetch (createOrder_request d) True w = (r, evs', w1')"
    and "createOrder fetch d w = (read_order r, evs', w1')"
    by (rule createOrder_run)
  with assms have eq: "settled = read_order r" "evs = evs'" "w1 = w1'"
    by simp_all
  from run have "(navigated evs \<longleftrightarrow>
           (\<exists>res sv. fetch (bearer w) (createOrder_request d) (server w) = (Inr res, sv) \<and>
                     res_status res = 401 \<and> \<not> fst (tryRefresh fetch (w\<lparr>server := sv\<rparr>)))) \<and>
        (navigated evs \<longrightarrow>
           settled = Inl (ApiError 401 ''Session expired'') \<and>
           access_token w1 = None \<and> refresh_token w1 = None)"
  proof (cases rule: apiFetch_cases)
    case (rejected err sv)
    with eq show ?thesis by (simp add: navigated_simps)
  next
    case (answered res sv)
    with eq show ?thesis by (simp add: navigated_simps)
  next
    case (expired res sv evs0 w0)
    with eq show ?thesis by (simp add: navigated_simps read_order_thrown)
  next
    case (refreshed res sv refreshToken w0)
    with eq show ?thesis by (simp add: navigated_simps)
  qed
  then show "navigated evs \<longleftrightarrow>
           (\<exists>res sv. fetch (bearer w) (createOrder_request d) (server w) = (Inr res, sv) \<and>
                     res_status res = 401 \<and> \<not> fst (tryRefresh fetch (w\<lparr>server := sv\<rparr>)))"
    and "navigated evs \<Longrightarrow>
           settled = Inl (ApiError 401 ''Session expired'') \<and>
           access_token w1 = None \<and> refresh_token w1 = None"
    by blast+
qed


subsection \<open>Claims about the submission\<close>

lemma totalItems_poNumber_update: "totalItems (st\<lparr>poNumber := p\<rparr>) = totalItems st"
  by (simp add: totalItems_def getOrderItems_def)

lemma isSubmitting_ex_cart: "isSubmitting ex_cart = False"
  by (simp add: ex_cart_def handleQuantityChange_def handleColorChange_def Let_def ex_fresh_def)

lemma totalItems_ex_cart: "totalItems ex_cart = 5"
  by (simp add: totalItems_def getOrderItems_ex_cart)

lemma totalItems_ex_fresh: "totalItems ex_fresh = 0"
  by (simp add: totalItems_def getOrderItems_concat ex_fresh_def)

text \<open>
  C4. For every state, a submission with a total of 0, or with a PO number that is empty
  or white space only, sends no request and never reaches the pending call: the state's
  \<open>isSubmitting\<close>, selections and PO number, and the tokens and the server, stay as they
  were. With no items the user gets the toast about quantities; with items and a blank PO
  number the field error \<open>PO Number is required\<close>.
\<close>

theorem handleSubmitOrder_validation:
  "(totalItems st = 0 \<longrightarrow>
      handleSubmitOrder fetch w st =
        (st, [Toast_error ''Please add quantities to at least one product''], w)) \<and>
   (totalItems st \<noteq> 0 \<and> (\<forall>c \<in> set (poNumber st). is_js_whitespace c) \<longrightarrow>
      handleSubmitOrder fetch w st = (st\<lparr>poError := ''PO Number is required''\<rparr>, [], w)) \<and>
   (totalItems st = 0 \<or> (\<forall>c \<in> set (poNumber st). is_js_whitespace c) \<longrightarrow>
      requests_of (fst (snd (handleSubmitOrder fetch w st))) = [] \<and>
      snd (snd (handleSubmitOrder fetch w st)) = w \<and>
      snd (snd (submit_begin st)) = None \<and>
      isSubmitting (fst (submit_begin st)) = isSubmitting st \<and>
      isSubmitting (fst (handleSubmitOrder fetch w st)) = isSubmitting st \<and>
      selections (fst (handleSubmitOrder fetch w st)) = selections st \<and>
      poNumber (fst (handleSubmitOrder fetch w st)) = poNumber st)"
proof (intro conjI impI)
  assume "totalItems st = 0"
  then show "handleSubmitOrder fetch w st =
      (st, [Toast_error ''Please add quantities to at least one product''], w)"
    by (rule handleSubmitOrder_rejects)
next
  assume "totalItems st \<noteq> 0 \<and> (\<forall>c \<in> set (poNumber st). is_js_whitespace c)"
  then show "handleSubmitOrder fetch w st = (st\<lparr>poError := ''PO Number is required''\<rparr>, [], w)"
    by (simp add: handleSubmitOrder_rejects trim_empty_iff)
next
  assume "totalItems st = 0 \<or> (\<forall>c \<in> set (poNumber st). is_js_whitespace c)"
  then consider (none) "totalItems st = 0"
    | (blank) "totalItems st \<noteq> 0" "trim (poNumber st) = []"
    by (auto simp: trim_empty_iff)
  then have "requests_of (fst (snd (handleSubmitOrder fetch w st))) = [] \<and>
      snd (snd (handleSubmitOrder fetch w st)) = w \<and>
      snd (snd (submit_begin st)) = None \<and>
      isSubmitting (fst (submit_begin st)) = isSubmitting st \<and>
      isSubmitting (fst (handleSubmitOrder fetch w st)) = isSubmitting st \<and>
      selections (fst (handleSubmitOrder fetch w st)) = selections st \<and>
      poNumber (fst (handleSubmitOrder fetch w st)) = poNumber st"
  proof cases
    case none
    then show ?thesis
      by (simp add: handleSubmitOrder_rejects submit_begin_rejects requests_of_simps)
  next
    case blank
    then show ?thesis
      by (simp add: handleSubmitOrder_rejects submit_begin_rejects requests_of_simps)
  qed
  then show "requests_of (fst (snd (handleSubmitOrder fetch w st))) = []"
    and "snd (snd (handleSubmitOrder fetch w st)) = w"
    and "snd (snd (submit_begin st)) = None"
    and "isSubmitting (fst (submit_begin st)) = isSubmitting st"
    and "isSubmitting (fst (handleSubmitOrder fetch w st)) = isSubmitting st"
    and "selections (fst (handleSubmitOrder fetch w st)) = selections st"
    and "poNumber (fst (handleSubmitOrder fetch w st)) = poNumber st"
    by simp_all
qed

theorem handleSubmitOrder_validation_witness:
  "handleSubmitOrder ex_fetch_ok ex_world (ex_fresh\<lparr>poNumber := ''PO-100''\<rparr>) =
     (ex_fresh\<lparr>poNumber := ''PO-100''\<rparr>,
      [Toast_error ''Please add quantities to at least one product''], ex_world) \<and>
   handleSubmitOrder ex_fetch_ok ex_world (ex_cart\<lparr>poNumber := ''   ''\<rparr>) =
     (ex_cart\<lparr>poNumber := ''   '', poError := ''PO Number is required''\<rparr>, [], ex_world) \<and>
   requests_of (fst (snd (handleSubmitOrder ex_fetch_ok ex_world (ex_cart\<lparr>poNumber := ''   ''\<rparr>)))) = [] \<and>
   isSubmitting (fst (submit_begin (ex_cart\<lparr>poNumber := ''   ''\<rparr>))) = False"
  using handleSubmitOrder_validation [of "ex_fresh\<lparr>poNumber := ''PO-100''\<rparr>" ex_fetch_ok ex_world]
    handleSubmitOrder_validation [of "ex_cart\<lparr>poNumber := ''   ''\<rparr>" ex_fetch_ok ex_world]
  by (simp add: totalItems_poNumber_update totalItems_ex_cart totalItems_ex_fresh
      is_js_whitespace_def requests_of_simps isSubmitting_ex_cart)


lemma begin_ex_cart:
  "totalItems ex_cart \<noteq> 0" "trim (poNumber ex_cart) \<noteq> []"
  "\<lparr>data_poNumber = trim (poNumber ex_cart), data_items = getOrderItems ex_cart\<rparr> =
     \<lparr>data_poNumber = ''PO-100'', data_items = getOrderItems ex_cart\<rparr>"
  by (simp_all add: totalItems_ex_cart poNumber_ex_cart trim_ex_po)


lemma handleSubmitOrder_ex_fetch_down:
  "handleSubmitOrder ex_fetch_down ex_world ex_cart =
     (ex_cart\<lparr>isSubmitting := False\<rparr>,
      [Request (createOrder_request
                  \<lparr>data_poNumber = ''PO-100'', data_items = getOrderItems ex_cart\<rparr>),
       Toast_error ''Database unavailable''],
      ex_world)"
  using handleSubmitOrder_accepts [OF begin_ex_cart(1,2) createOrder_ex_fetch_down]
  by (simp add: begin_ex_cart(3) poNumber_ex_cart trim_ex_po js_or_def)

lemma handleSubmitOrder_ex_fetch_expired:
  "handleSubmitOrder ex_fetch_expired ex_world ex_cart =
     (ex_cart\<lparr>isSubmitting := False\<rparr>,
      [Request (createOrder_request
                  \<lparr>data_poNumber = ''PO-100'', data_items = getOrderItems ex_cart\<rparr>),
       Request (refresh_request ''old-refresh''),
       Navigate ''/'',
       Toast_error ''Session expired''],
      ex_world\<lparr>access_token := None, refresh_token := None\<rparr>)"
  using handleSubmitOrder_accepts [OF begin_ex_cart(1,2) createOrder_ex_fetch_expired]
  by (simp add: begin_ex_cart(3) poNumber_ex_cart trim_ex_po js_or_def)


lemma selections_ex_cart_nonempty: "selections ex_cart \<noteq> []"
  by (simp add: selections_ex_cart)

text \<open>
  C3, as claimed, fails: when the server answers 401 and the token refresh fails too, the
  call fails with \<open>Session expired\<close>, but before it throws \<open>apiFetch\<close> has cleared the
  tokens and sent the browser to \<open>/\<close>; the dashboard is gone, and with it the cart and the
  PO number the user had typed.
\<close>

theorem handleSubmitOrder_session_expired_discards_cart:
  "fst (createOrder ex_fetch_expired
          \<lparr>data_poNumber = ''PO-100'', data_items = getOrderItems ex_cart\<rparr> ex_world) =
     Inl (ApiError 401 ''Session expired'') \<and>
   fst (snd (handleSubmitOrder ex_fetch_expired ex_world ex_cart)) =
     [Request (createOrder_request
                 \<lparr>data_poNumber = ''PO-100'', data_items = getOrderItems ex_cart\<rparr>),
      Request (refresh_request ''old-refresh''),
      Navigate ''/'',
      Toast_error ''Session expired''] \<and>
   dashboard_after (handleSubmitOrder ex_fetch_expired ex_world ex_cart) = None \<and>
   selections ex_cart \<noteq> [] \<and> poNumber ex_cart = '' PO-100 ''"
  by (simp add: handleSubmitOrder_ex_fetch_expired createOrder_ex_fetch_expired
      dashboard_after_def navigated_simps selections_ex_cart_nonempty poNumber_ex_cart)

text \<open>
  C3, amended. For every state whose submission passes both checks: when the call
  succeeds, the dashboard stays, its selections are empty and its PO number is the empty
  string (and the order id and the PO number as typed are kept for display). When the
  call fails, the handler sets neither the selections nor the PO number and shows the
  error; they are exactly what they were as long as the dashboard stays, which is the case
  for every failure but a session expiry. Exactly when the first answer is 401 and the
  token refresh fails, \<open>apiFetch\<close> has cleared both tokens and navigated to \<open>/\<close>, the error
  is \<open>Session expired\<close>, and the dashboard with both values is discarded. The refresh
  fails unless a non-empty refresh token is stored and \<open>POST /auth/refresh\<close> with it is
  answered with an ok status and a body holding the new tokens.
\<close>

theorem handleSubmitOrder_clears_on_success_only:
  "totalItems st \<noteq> 0 \<and> trim (poNumber st) \<noteq> [] \<longrightarrow>
     (let d = \<lparr>data_poNumber = trim (poNumber st), data_items = getOrderItems st\<rparr>;
          settled = fst (createOrder fetch d w);
          out = handleSubmitOrder fetch w st
      in (\<forall>order. settled = Inr order \<longrightarrow>
            dashboard_after out = Some (fst out) \<and>
            selections (fst out) = [] \<and> poNumber (fst out) = [] \<and>
            lastOrderId (fst out) = order_id order \<and> lastPoNumber (fst out) = poNumber st) \<and>
         (\<forall>err. settled = Inl err \<longrightarrow>
            selections (fst out) = selections st \<and> poNumber (fst out) = poNumber st \<and>
            last (fst (snd out)) = Toast_error (js_or (message err) ''Failed to place order'') \<and>
            (navigated (fst (snd out)) \<longleftrightarrow>
               (\<exists>res sv. fetch (bearer w) (createOrder_request d) (server w) = (Inr res, sv) \<and>
                         res_status res = 401 \<and>
                           \<not> (\<exists>refreshToken res2 sv2.
                                 refresh_token w = Some refreshToken \<and> refreshToken \<noteq> [] \<and>
                                 fetch None (refresh_request refreshToken) sv = (Inr res2, sv2) \<and>
                                 ok res2 \<and> body_tokens res2 \<noteq> None))) \<and>
            (\<not> navigated (fst (snd out)) \<longrightarrow> dashboard_after out = Some (fst out)) \<and>
            (navigated (fst (snd out)) \<longrightarrow>
               dashboard_after out = None \<and> err = ApiError 401 ''Session expired'' \<and>
               access_token (snd (snd out)) = None \<and> refresh_token (snd (snd out)) = None)))"
proof (intro impI)
  assume checks: "totalItems st \<noteq> 0 \<and> trim (poNumber st) \<noteq> []"
  define d where "d = \<lparr>data_poNumber = trim (poNumber st), data_items = getOrderItems st\<rparr>"
  obtain settled evs w1 where run: "createOrder fetch d w = (settled, evs, w1)"
    by (cases "createOrder fetch d w") auto
  note nav = createOrder_navigated [OF run]
  from checks run have out: "handleSubmitOrder fetch w st =
     (case settled of
        Inr order \<Rightarrow>
          (st\<lparr>lastOrderId := order_id order, lastPoNumber := poNumber st, selections := [],
              poNumber := [], poError := [], showConfirmation := True, isSubmitting := False\<rparr>,
           evs @ [Toast_success ''Order placed successfully!''], w1)
      | Inl err \<Rightarrow>
          (st\<lparr>isSubmitting := False\<rparr>,
           evs @ [Toast_error (js_or (message err) ''Failed to place order'')], w1))"
    unfolding d_def by (intro handleSubmitOrder_accepts) simp_all
  have success: "dashboard_after (handleSubmitOrder fetch w st) = Some (fst (handleSubmitOrder fetch w st)) \<and>
            selections (fst (handleSubmitOrder fetch w st)) = [] \<and>
            poNumber (fst (handleSubmitOrder fetch w st)) = [] \<and>
            lastOrderId (fst (handleSubmitOrder fetch w st)) = order_id order \<and>
            lastPoNumber (fst (handleSubmitOrder fetch w st)) = poNumber st"
    if "settled = Inr order" for order
  proof -
    from that nav(2) have "\<not> navigated evs"
      by auto
    with that show ?thesis
      by (simp add: out dashboard_after_def navigated_simps)
  qed
  have failure: "selections (fst (handleSubmitOrder fetch w st)) = selections st \<and>
            poNumber (fst (handleSubmitOrder fetch w st)) = poNumber st \<and>
            last (fst (snd (handleSubmitOrder fetch w st))) =
              Toast_error (js_or (message err) ''Failed to place order'') \<and>
            (navigated (fst (snd (handleSubmitOrder fetch w st))) \<longleftrightarrow>
               (\<exists>res sv. fetch (bearer w) (createOrder_request d) (server w) = (Inr res, sv) \<and>
                         res_status res = 401 \<and>
                           \<not> (\<exists>refreshToken res2 sv2.
                                 refresh_token w = Some refreshToken \<and> refreshToken \<noteq> [] \<and>
                                 fetch None (refresh_request refreshToken) sv = (Inr res2, sv2) \<and>
                                 ok res2 \<and> body_tokens res2 \<noteq> None))) \<and>
            (\<not> navigated (fst (snd (handleSubmitOrder fetch w st))) \<longrightarrow>
               dashboard_after (handleSubmitOrder fetch w st) = Some (fst (handleSubmitOrder fetch w st))) \<and>
            (navigated (fst (snd (handleSubmitOrder fetch w st))) \<longrightarrow>
               dashboard_after (handleSubmitOrder fetch w st) = None \<and>
               err = ApiError 401 ''Session expired'' \<and>
               access_token (snd (snd (handleSubmitOrder fetch w st))) = None \<and>
               refresh_token (snd (snd (handleSubmitOrder fetch w st))) = None)"
    if "settled = Inl err" for err
  proof -
    from that have events: "fst (snd (handleSubmitOrder fetch w st)) =
        evs @ [Toast_error (js_or (message err) ''Failed to place order'')]"
      and world: "snd (snd (handleSubmitOrder fetch w st)) = w1"
      and state: "fst (handleSubmitOrder fetch w st) = st\<lparr>isSubmitting := False\<rparr>"
      by (simp_all add: out)
    from nav(2) that have "navigated evs \<Longrightarrow>
        err = ApiError 401 ''Session expired'' \<and> access_token w1 = None \<and> refresh_token w1 = None"
      by simp
    with nav(1) show ?thesis
      by (simp add: world state dashboard_after_def events navigated_simps
          tryRefresh_succeeds_iff; blast)
  qed
  from success failure run show "let d = \<lparr>data_poNumber = trim (poNumber st), data_items = getOrderItems st\<rparr>;
          settled = fst (createOrder fetch d w);
          out = handleSubmitOrder fetch w st
      in (\<forall>order. settled = Inr order \<longrightarrow>
            dashboard_after out = Some (fst out) \<and>
            selections (fst out) = [] \<and> poNumber (fst out) = [] \<and>
            lastOrderId (fst out) = order_id order \<and> lastPoNumber (fst out) = poNumber st) \<and>
         (\<forall>err. settled = Inl err \<longrightarrow>
            selections (fst out) = selections st \<and> poNumber (fst out) = poNumber st \<and>
            last (fst (snd out)) = Toast_error (js_or (message err) ''Failed to place order'') \<and>
            (navigated (fst (snd out)) \<longleftrightarrow>
               (\<exists>res sv. fetch (bearer w) (createOrder_request d) (server w) = (Inr res, sv) \<and>
                         res_status res = 401 \<and>
                           \<not> (\<exists>refreshToken res2 sv2.
                                 refresh_token w = Some refreshToken \<and> refreshToken \<noteq> [] \<and>
                                 fetch None (refresh_request refreshToken) sv = (Inr res2, sv2) \<and>
                                 ok res2 \<and> body_tokens res2 \<noteq> None))) \<and>
            (\<not> navigated (fst (snd out)) \<longrightarrow> dashboard_after out = Some (fst out)) \<and>
            (navigated (fst (snd out)) \<longrightarrow>
               dashboard_after out = None \<and> err = ApiError 401 ''Session expired'' \<and>
               access_token (snd (snd out)) = None \<and> refresh_token (snd (snd out)) = None))"
    unfolding Let_def d_def [symmetric] by (simp only: fst_conv) blast
qed


theorem handleSubmitOrder_clears_on_success_only_witness:
  "selections (fst (handleSubmitOrder ex_fetch_ok ex_world ex_cart)) = [] \<and>
   poNumber (fst (handleSubmitOrder ex_fetch_ok ex_world ex_cart)) = [] \<and>
   lastOrderId (fst (handleSubmitOrder ex_fetch_ok ex_world ex_cart)) = ''ORD-1'' \<and>
   lastPoNumber (fst (handleSubmitOrder ex_fetch_ok ex_world ex_cart)) = '' PO-100 '' \<and>
   dashboard_after (handleSubmitOrder ex_fetch_ok ex_world ex_cart) =
     Some (fst (handleSubmitOrder ex_fetch_ok ex_world ex_cart)) \<and>
   selections (fst (handleSubmitOrder ex_fetch_down ex_world ex_cart)) = selections ex_cart \<and>
   selections ex_cart \<noteq> [] \<and>
   poNumber (fst (handleSubmitOrder ex_fetch_down ex_world ex_cart)) = '' PO-100 '' \<and>
   dashboard_after (handleSubmitOrder ex_fetch_down ex_world ex_cart) =
     Some (fst (handleSubmitOrder ex_fetch_down ex_world ex_cart)) \<and>
   dashboard_after (handleSubmitOrder ex_fetch_expired ex_world ex_cart) = None \<and>
   access_token (snd (snd (handleSubmitOrder ex_fetch_expired ex_world ex_cart))) = None"
proof -
  note ok = handleSubmitOrder_clears_on_success_only [of ex_cart ex_fetch_ok ex_world]
  note down = handleSubmitOrder_clears_on_success_only [of ex_cart ex_fetch_down ex_world]
  note expired = handleSubmitOrder_clears_on_success_only [of ex_cart ex_fetch_expired ex_world]
  have nav: "\<not> navigated (fst (snd (handleSubmitOrder ex_fetch_down ex_world ex_cart)))"
    "navigated (fst (snd (handleSubmitOrder ex_fetch_expired ex_world ex_cart)))"
    by (simp_all add: handleSubmitOrder_ex_fetch_down handleSubmitOrder_ex_fetch_expired
        navigated_simps)
  from ok have
    "selections (fst (handleSubmitOrder ex_fetch_ok ex_world ex_cart)) = [] \<and>
     poNumber (fst (handleSubmitOrder ex_fetch_ok ex_world ex_cart)) = [] \<and>
     lastOrderId (fst (handleSubmitOrder ex_fetch_ok ex_world ex_cart)) = ''ORD-1'' \<and>
     lastPoNumber (fst (handleSubmitOrder ex_fetch_ok ex_world ex_cart)) = '' PO-100 '' \<and>
     dashboard_after (handleSubmitOrder ex_fetch_ok ex_world ex_cart) =
       Some (fst (handleSubmitOrder ex_fetch_ok ex_world ex_cart))"
    by (simp add: Let_def begin_ex_cart createOrder_ex_fetch_ok poNumber_ex_cart trim_ex_po
        ex_order_def)
  moreover from down nav(1) have
    "selections (fst (handleSubmitOrder ex_fetch_down ex_world ex_cart)) = selections ex_cart \<and>
     poNumber (fst (handleSubmitOrder ex_fetch_down ex_world ex_cart)) = '' PO-100 '' \<and>
     dashboard_after (handleSubmitOrder ex_fetch_down ex_world ex_cart) =
       Some (fst (handleSubmitOrder ex_fetch_down ex_world ex_cart))"
    by (simp add: Let_def begin_ex_cart createOrder_ex_fetch_down poNumber_ex_cart trim_ex_po)
  moreover from expired nav(2) have
    "dashboard_after (handleSubmitOrder ex_fetch_expired ex_world ex_cart) = None \<and>
     access_token (snd (snd (handleSubmitOrder ex_fetch_expired ex_world ex_cart))) = None"
    by (simp add: Let_def begin_ex_cart createOrder_ex_fetch_expired poNumber_ex_cart trim_ex_po)
  ultimately show ?thesis
    using selections_ex_cart_nonempty by simp
qed




section \<open>The order history\<close>

lemma set_sort_insert: "set (sort_insert compare a xs) = insert a (set xs)"
  by (induction xs) auto

lemma mset_sort_insert: "mset (sort_insert compare a xs) = add_mset a (mset xs)"
  by (induction xs) auto

lemma mset_js_sort: "mset (js_sort compare xs) = mset xs"
  by (induction xs) (simp_all add: js_sort_def mset_sort_insert)

lemma sorted_sort_insert:
  "sorted_wrt (\<lambda>a b. key b \<le> key a) xs \<Longrightarrow>
   sorted_wrt (\<lambda>a b. key b \<le> key a) (sort_insert (\<lambda>a b. key b - key a) x xs)"
  for key :: "'a \<Rightarrow> int"
  by (induction xs) (auto simp: set_sort_insert)

lemma sorted_js_sort:
  "sorted_wrt (\<lambda>a b. key b \<le> key a) (js_sort (\<lambda>a b. key b - key a) xs)"
  for key :: "'a \<Rightarrow> int"
  by (induction xs) (simp_all add: js_sort_def sorted_sort_insert)

lemma filter_sort_insert:
  "filter (\<lambda>y. key y = t) (sort_insert (\<lambda>a b. key b - key a) x xs) =
     (if key x = t then x # filter (\<lambda>y. key y = t) xs else filter (\<lambda>y. key y = t) xs)"
  for key :: "'a \<Rightarrow> int"
  by (induction xs) auto

lemma filter_js_sort:
  "filter (\<lambda>y. key y = t) (js_sort (\<lambda>a b. key b - key a) xs) = filter (\<lambda>y. key y = t) xs"
  for key :: "'a \<Rightarrow> int"
  by (induction xs) (simp_all add: js_sort_def filter_sort_insert)

text \<open>
  C7. For every fetched list, \<open>loadOrders\<close> (the spec's \<open>load\<close>) stores the same orders
  sorted by \<open>createdAt\<close>, newest first, and orders with equal time stamps keep the order in
  which they were fetched. Orders of 2024-01-01, 2024-03-01 and 2024-02-01, fetched in
  that order, are stored as 2024-03-01, 2024-02-01, 2024-01-01; a fourth order with the
  time stamp of the second stays behind it.
\<close>

theorem loadOrders_newest_first:
  "sorted_wrt (\<lambda>a b. getTime (createdAt b) \<le> getTime (createdAt a))
     (orders (fst (loadOrders (Inr data) st))) \<and>
   mset (orders (fst (loadOrders (Inr data) st))) = mset data \<and>
   (\<forall>t. filter (\<lambda>order. getTime (createdAt order) = t) (orders (fst (loadOrders (Inr data) st))) =
        filter (\<lambda>order. getTime (createdAt order) = t) data) \<and>
   map createdAt
     (orders (fst (loadOrders
        (Inr [ex_order ''A'' ''Acme'' ''pending'' ex_T1,
              ex_order ''B'' ''Acme'' ''pending'' ex_T2,
              ex_order ''C'' ''Acme'' ''pending'' ex_T3]) st))) =
     [ex_T2, ex_T3, ex_T1] \<and>
   map order_id
     (orders (fst (loadOrders
        (Inr [ex_order ''A'' ''Acme'' ''pending'' ex_T1,
              ex_order ''B'' ''Acme'' ''pending'' ex_T2,
              ex_order ''C'' ''Acme'' ''pending'' ex_T3,
              ex_order ''D'' ''Acme'' ''pending'' ex_T2]) st))) =
     [''B'', ''D'', ''C'', ''A'']"
proof (intro conjI allI)
  show "sorted_wrt (\<lambda>a b. getTime (createdAt b) \<le> getTime (createdAt a))
     (orders (fst (loadOrders (Inr data) st)))"
    by (simp add: loadOrders_def sorted_js_sort)
  show "mset (orders (fst (loadOrders (Inr data) st))) = mset data"
    by (simp add: loadOrders_def mset_js_sort)
  show "filter (\<lambda>order. getTime (createdAt order) = t) (orders (fst (loadOrders (Inr data) st))) =
        filter (\<lambda>order. getTime (createdAt order) = t) data" for t
    by (simp add: loadOrders_def filter_js_sort)
  show "map createdAt
     (orders (fst (loadOrders
        (Inr [ex_order ''A'' ''Acme'' ''pending'' ex_T1,
              ex_order ''B'' ''Acme'' ''pending'' ex_T2,
              ex_order ''C'' ''Acme'' ''pending'' ex_T3]) st))) =
     [ex_T2, ex_T3, ex_T1]"
    by (simp add: loadOrders_def js_sort_def ex_order_def ex_T1_def ex_T2_def ex_T3_def)
  show "map order_id
     (orders (fst (loadOrders
        (Inr [ex_order ''A'' ''Acme'' ''pending'' ex_T1,
              ex_order ''B'' ''Acme'' ''pending'' ex_T2,
              ex_order ''C'' ''Acme'' ''pending'' ex_T3,
              ex_order ''D'' ''Acme'' ''pending'' ex_T2]) st))) =
     [''B'', ''D'', ''C'', ''A'']"
    by (simp add: loadOrders_def js_sort_def ex_order_def ex_T1_def ex_T2_def ex_T3_def)
qed

section \<open>The admin order page\<close>

text \<open>
  C2, as claimed, fails: \<open>handleStatusChange\<close> (the spec's \<open>setStatus\<close>) sends no request,
  not the one \<open>updateOrderStatus\<close> would send either; it changes the list and reports
  success on its own.
\<close>

theorem handleStatusChange_sends_no_request:
  "updateOrderStatus_request ''ORD-1'' ''shipped'' \<notin>
     set (requests_of (snd (handleStatusChange ''ORD-1'' ''shipped'' ex_admin))) \<and>
   snd (handleStatusChange ''ORD-1'' ''shipped'' ex_admin) =
     [Toast_success ''Order status updated successfully''] \<and>
   map status (admin_orders (fst (handleStatusChange ''ORD-1'' ''shipped'' ex_admin))) =
     [''shipped'', ''confirmed'']"
  by (simp add: handleStatusChange_def requests_of_def ex_admin_def ex_order_def)

text \<open>
  C2, amended. For every order id and new status, \<open>handleStatusChange\<close> makes no
  collaborator call and has no failure path: at once it sets the status of every order of
  the in-memory list with that id, leaves the other orders as they are, sets the status
  of the open detail view when it shows that order, and reports success.
\<close>

theorem handleStatusChange_local_update:
  "snd (handleStatusChange orderId newStatus st) =
     [Toast_success ''Order status updated successfully''] \<and>
   requests_of (snd (handleStatusChange orderId newStatus st)) = [] \<and>
   admin_orders (fst (handleStatusChange orderId newStatus st)) =
     map (\<lambda>order. if order_id order = orderId then order\<lparr>status := newStatus\<rparr> else order)
       (admin_orders st) \<and>
   (\<forall>order \<in> set (admin_orders (fst (handleStatusChange orderId newStatus st))).
      order_id order = orderId \<longrightarrow> status order = newStatus) \<and>
   (\<forall>sel. selectedOrder st = Some sel \<longrightarrow>
      selectedOrder (fst (handleStatusChange orderId newStatus st)) =
        Some (if order_id sel = orderId then sel\<lparr>status := newStatus\<rparr> else sel)) \<and>
   (selectedOrder st = None \<longrightarrow>
      selectedOrder (fst (handleStatusChange orderId newStatus st)) = None)"
proof (intro conjI ballI allI impI)
  show "snd (handleStatusChange orderId newStatus st) =
     [Toast_success ''Order status updated successfully'']"
    by (simp add: handleStatusChange_def)
  show "requests_of (snd (handleStatusChange orderId newStatus st)) = []"
    by (simp add: handleStatusChange_def requests_of_def)
  show "admin_orders (fst (handleStatusChange orderId newStatus st)) =
     map (\<lambda>order. if order_id order = orderId then order\<lparr>status := newStatus\<rparr> else order)
       (admin_orders st)"
    by (simp add: handleStatusChange_def)
next
  fix order
  assume "order \<in> set (admin_orders (fst (handleStatusChange orderId newStatus st)))"
    and match: "order_id order = orderId"
  then have "order \<in> (\<lambda>order. if order_id order = orderId then order\<lparr>status := newStatus\<rparr>
                              else order) ` set (admin_orders st)"
    by (simp add: handleStatusChange_def)
  then obtain old where
    "order = (if order_id old = orderId then old\<lparr>status := newStatus\<rparr> else old)"
    by (rule imageE)
  with match show "status order = newStatus"
    by (cases "order_id old = orderId") simp_all
next
  fix sel
  assume "selectedOrder st = Some sel"
  then show "selectedOrder (fst (handleStatusChange orderId newStatus st)) =
        Some (if order_id sel = orderId then sel\<lparr>status := newStatus\<rparr> else sel)"
    by (simp add: handleStatusChange_def)
next
  assume "selectedOrder st = None"
  then show "selectedOrder (fst (handleStatusChange orderId newStatus st)) = None"
    by (simp add: handleStatusChange_def)
qed

lemma selectedOrder_ex_admin:
  "selectedOrder ex_admin = Some (ex_order ''ORD-1'' ''Acme, Inc.'' ''pending'' ex_T1)"
  by (simp add: ex_admin_def)

lemma admin_orders_ex_admin:
  "admin_orders ex_admin =
     [ex_order ''ORD-1'' ''Acme, Inc.'' ''pending'' ex_T1,
      ex_order ''ORD-2'' ''Globex'' ''confirmed'' ex_T2]"
  by (simp add: ex_admin_def)

lemma ex_order_fields:
  "order_id (ex_order i customer s d) = i" "status (ex_order i customer s d) = s"
  "status ((ex_order i customer s d)\<lparr>status := s'\<rparr>) = s'"
  "order_id ((ex_order i customer s d)\<lparr>status := s'\<rparr>) = i"
  by (simp_all add: ex_order_def)

theorem handleStatusChange_local_update_witness:
  "map (\<lambda>order. (order_id order, status order))
     (admin_orders (fst (handleStatusChange ''ORD-1'' ''shipped'' ex_admin))) =
     [(''ORD-1'', ''shipped''), (''ORD-2'', ''confirmed'')] \<and>
   map_option status (selectedOrder (fst (handleStatusChange ''ORD-1'' ''shipped'' ex_admin))) =
     Some ''shipped'' \<and>
   map_option status (selectedOrder (fst (handleStatusChange ''ORD-2'' ''delivered'' ex_admin))) =
     Some ''pending'' \<and>
   requests_of (snd (handleStatusChange ''ORD-1'' ''shipped'' ex_admin)) = []"
proof -
  note shipped = handleStatusChange_local_update [of "''ORD-1''" "''shipped''" ex_admin]
  note delivered = handleStatusChange_local_update [of "''ORD-2''" "''delivered''" ex_admin]
  have list: "map (\<lambda>order. (order_id order, status order))
     (admin_orders (fst (handleStatusChange ''ORD-1'' ''shipped'' ex_admin))) =
     [(''ORD-1'', ''shipped''), (''ORD-2'', ''confirmed'')]"
    unfolding shipped [THEN conjunct2, THEN conjunct2, THEN conjunct1]
    by (simp add: admin_orders_ex_admin ex_order_fields)
  have open_shipped:
    "map_option status (selectedOrder (fst (handleStatusChange ''ORD-1'' ''shipped'' ex_admin))) =
       Some ''shipped''"
    using shipped [THEN conjunct2, THEN conjunct2, THEN conjunct2, THEN conjunct2,
        THEN conjunct1, rule_format, OF selectedOrder_ex_admin]
    by (simp add: ex_order_fields)
  have open_other:
    "map_option status (selectedOrder (fst (handleStatusChange ''ORD-2'' ''delivered'' ex_admin))) =
       Some ''pending''"
    using delivered [THEN conjunct2, THEN conjunct2, THEN conjunct2, THEN conjunct2,
        THEN conjunct1, rule_format, OF selectedOrder_ex_admin]
    by (simp add: ex_order_fields)
  have none: "requests_of (snd (handleStatusChange ''ORD-1'' ''shipped'' ex_admin)) = []"
    by (rule shipped [THEN conjunct2, THEN conjunct1])
  from list open_shipped open_other none show ?thesis
    by (intro conjI)
qed

section \<open>The CSV export\<close>

lemma is_digit_char_of: "n < 10 \<Longrightarrow> is_digit (char_of (48 + n))" for n :: nat
  by (simp add: is_digit_def)

lemma nat_toString_digits: "c \<in> set (nat_toString n) \<Longrightarrow> is_digit c"
proof (induction n rule: nat_toString.induct)
  case (1 n)
  show ?case
  proof (cases "n < 10")
    case True
    with "1.prems" show ?thesis
      by (simp add: nat_toString.simps [of n] is_digit_char_of)
  next
    case False
    with "1.prems" "1.IH" show ?thesis
      by (auto simp: nat_toString.simps [of n] is_digit_char_of)
  qed
qed

lemma length_nat_toString: "n < 10 ^ k \<Longrightarrow> 0 < k \<Longrightarrow> length (nat_toString n) \<le> k"
proof (induction n arbitrary: k rule: nat_toString.induct)
  case (1 n)
  show ?case
  proof (cases "n < 10")
    case True
    with "1.prems" show ?thesis
      by (simp add: nat_toString.simps [of n])
  next
    case False
    obtain j where k: "k = Suc j"
      using "1.prems"(2) by (cases k) auto
    with False "1.prems"(1) have "0 < j"
      by (cases j) auto
    moreover from k "1.prems"(1) have "n div 10 < 10 ^ j"
      by (simp add: less_mult_imp_div_less)
    ultimately have "length (nat_toString (n div 10)) \<le> j"
      using "1.IH" [OF False] by simp
    with False k show ?thesis
      by (simp add: nat_toString.simps [of n])
  qed
qed

lemma nat_toString_nonempty: "nat_toString n \<noteq> []"
  by (simp add: nat_toString.simps [of n])

lemma newline_not_digit: "\<not> is_digit (CHR 0x0A)" "\<not> is_digit (CHR ''-'')"
  by (simp_all add: is_digit_def)

lemma toString_no_newline: "CHR 0x0A \<notin> set (toString i)"
  using nat_toString_digits newline_not_digit by (auto simp: toString_def)

lemma addLeadingZeros_chars:
  "c \<in> set (addLeadingZeros i k) \<Longrightarrow> is_digit c \<or> c = CHR ''-''"
  by (auto simp: addLeadingZeros_def padStart_def Let_def is_digit_def
      dest: nat_toString_digits split: if_splits)

lemma format_yyyy_MM_dd_chars:
  "c \<in> set (format_yyyy_MM_dd d) \<Longrightarrow> is_digit c \<or> c = CHR ''-''"
  by (auto simp: format_yyyy_MM_dd_def Let_def dest: addLeadingZeros_chars)

lemma format_no_newline: "CHR 0x0A \<notin> set (format_yyyy_MM_dd d)"
  using format_yyyy_MM_dd_chars [of "CHR 0x0A" d] newline_not_digit by auto

lemma length_addLeadingZeros:
  "0 \<le> i \<Longrightarrow> i < 10 ^ k \<Longrightarrow> 0 < k \<Longrightarrow> length (addLeadingZeros i k) = k"
proof -
  assume i: "0 \<le> i" "i < 10 ^ k" and k: "0 < k"
  from i have "nat \<bar>i\<bar> < 10 ^ k"
    by (simp add: nat_less_iff)
  then have "length (nat_toString (nat \<bar>i\<bar>)) \<le> k"
    using k by (rule length_nat_toString)
  with i show ?thesis
    by (simp add: addLeadingZeros_def padStart_def)
qed

lemma radix_value_snoc: "radix_value R (Z @ [c]) = radix_value R Z * R + digit_value c"
  by (simp add: radix_value_def)

lemma digit_value_char_of: "n < 10 \<Longrightarrow> digit_value (char_of (48 + n)) = n" for n :: nat
  by (simp add: digit_value_def)

lemma radix_value_nat_toString: "radix_value 10 (nat_toString n) = n"
proof (induction n rule: nat_toString.induct)
  case (1 n)
  show ?case
  proof (cases "n < 10")
    case True
    then show ?thesis
      by (simp add: nat_toString.simps [of n] radix_value_def digit_value_char_of)
  next
    case False
    with "1.IH" show ?thesis
      by (simp add: nat_toString.simps [of n] radix_value_snoc digit_value_char_of)
  qed
qed

lemma radix_value_zeros: "radix_value R (replicate k (CHR ''0'') @ Z) = radix_value R Z"
  by (induction k) (simp_all add: radix_value_def digit_value_def)

lemma radix_value_addLeadingZeros: "0 \<le> i \<Longrightarrow> radix_value 10 (addLeadingZeros i k) = nat i"
  by (simp add: addLeadingZeros_def padStart_def radix_value_zeros radix_value_nat_toString)

lemma format_yyyy_MM_dd_shape:
  assumes "1 \<le> getFullYear d" "getFullYear d \<le> 9999" "getMonth d < 12" "getDate d \<le> 31"
  shows "\<exists>yyyy MM dd. format_yyyy_MM_dd d = yyyy @ ''-'' @ MM @ ''-'' @ dd \<and>
           length yyyy = 4 \<and> length MM = 2 \<and> length dd = 2 \<and>
           (\<forall>c \<in> set (yyyy @ MM @ dd). is_digit c) \<and>
           int (radix_value 10 yyyy) = getFullYear d \<and>
           radix_value 10 MM = getMonth d + 1 \<and>
           radix_value 10 dd = getDate d"
proof (intro exI conjI)
  show "format_yyyy_MM_dd d =
          addLeadingZeros (getFullYear d) 4 @ ''-'' @
          addLeadingZeros (int (getMonth d) + 1) 2 @ ''-'' @
          addLeadingZeros (int (getDate d)) 2"
    using assms by (simp add: format_yyyy_MM_dd_def)
  show "length (addLeadingZeros (getFullYear d) 4) = 4"
    and "length (addLeadingZeros (int (getMonth d) + 1) 2) = 2"
    and "length (addLeadingZeros (int (getDate d)) 2) = 2"
    using assms by (simp_all add: length_addLeadingZeros)
  show "\<forall>c \<in> set (addLeadingZeros (getFullYear d) 4 @
                    addLeadingZeros (int (getMonth d) + 1) 2 @
                    addLeadingZeros (int (getDate d)) 2). is_digit c"
    using assms
    by (auto simp: addLeadingZeros_def padStart_def is_digit_def dest: nat_toString_digits)
  show "int (radix_value 10 (addLeadingZeros (getFullYear d) 4)) = getFullYear d"
    using assms by (simp add: radix_value_addLeadingZeros)
  show "radix_value 10 (addLeadingZeros (int (getMonth d) + 1) 2) = getMonth d + 1"
    by (simp add: radix_value_addLeadingZeros nat_add_distrib)
  show "radix_value 10 (addLeadingZeros (int (getDate d)) 2) = getDate d"
    by (simp add: radix_value_addLeadingZeros)
qed

lemma split_at_plain: "d \<notin> set s \<Longrightarrow> split_at d s = [s]"
  by (induction s) auto

lemma split_at_append: "d \<notin> set x \<Longrightarrow> split_at d (x @ d # rest) = x # split_at d rest"
  by (induction x) auto

lemma split_at_join:
  "xs \<noteq> [] \<Longrightarrow> \<forall>x \<in> set xs. d \<notin> set x \<Longrightarrow> split_at d (join [d] xs) = xs"
  by (induction "[d]" xs rule: join.induct) (simp_all add: split_at_plain split_at_append)

lemma hd_split_at_join:
  "d \<notin> set x \<Longrightarrow> hd (split_at d (join [d] (x # xs))) = x"
  by (cases xs) (simp_all add: split_at_plain split_at_append)

lemma csv_header: "join '','' headers = ''Order ID,Customer,PO Number,Items,Status,Date''"
  by (simp add: headers_def)

lemma csv_rows:
  "map (join '','') (rows filteredOrders) =
     map (\<lambda>order. order_id order @ '','' @ customerName order @ '','' @ order_poNumber order @
                   '','' @ toString (order_totalItems order) @ '','' @ status order @ '','' @
                   format_yyyy_MM_dd (createdAt order))
       filteredOrders"
  by (simp add: rows_def)

lemma nat_toString_small: "n < 10 \<Longrightarrow> nat_toString n = [char_of (48 + n)]"
  by (simp add: nat_toString.simps [of n])

lemma nat_toString_big:
  "10 \<le> n \<Longrightarrow> nat_toString n = nat_toString (n div 10) @ [char_of (48 + n mod 10)]"
  by (simp add: nat_toString.simps [of n])

lemma toString_5: "toString 5 = ''5''"
  by (simp add: toString_def nat_toString_small char_of_def bit_Suc_0_iff)

lemma format_ex_dates:
  "format_yyyy_MM_dd ex_T1 = ''2024-01-01''" "format_yyyy_MM_dd ex_T2 = ''2024-03-01''"
  by (simp_all add: format_yyyy_MM_dd_def addLeadingZeros_def padStart_def ex_T1_def ex_T2_def
      nat_toString_small nat_toString_big char_of_def bit_Suc_0_iff)

text \<open>
  C8, as claimed, fails: nothing is escaped, so for two orders of which one has a line
  feed in its customer name the text has four lines, not three.
\<close>

theorem csvContent_line_feed_in_field:
  "split_at (CHR 0x0A)
     (csvContent [ex_order ''ORD-1'' (''Acme'' @ [CHR 0x0A] @ ''Inc'') ''pending'' ex_T1,
                  ex_order ''ORD-2'' ''Globex'' ''confirmed'' ex_T2]) =
     [''Order ID,Customer,PO Number,Items,Status,Date'',
      ''ORD-1,Acme'',
      ''Inc,PO-100,5,pending,2024-01-01'',
      ''ORD-2,Globex,PO-100,5,confirmed,2024-03-01''] \<and>
   length (split_at (CHR 0x0A)
     (csvContent [ex_order ''ORD-1'' (''Acme'' @ [CHR 0x0A] @ ''Inc'') ''pending'' ex_T1,
                  ex_order ''ORD-2'' ''Globex'' ''confirmed'' ex_T2])) = 4"
  by (simp add: csvContent_def csv_header csv_rows ex_order_def toString_5 format_ex_dates)

text \<open>
  C8, amended. For every list of orders, the CSV text \<open>exportToExcel\<close> offers is the
  header line \<open>Order ID,Customer,PO Number,Items,Status,Date\<close> followed by one row per
  order, joined by line feeds; a row is the order's id, customer name, PO number, total,
  status and date, in that order, joined by commas with nothing escaped or quoted. The
  first line of the text is always the header. When no id, customer name, PO number or
  status holds a line feed, the text has exactly one line more than there are orders, so
  3 lines for 2 orders. The date is formatted \<open>yyyy-MM-dd\<close>: for a year from 1 to 9999 it
  is four digits, two digits and two digits, separated by hyphens, whose decimal values
  are the year, the month counted from 1 and the day of the month of \<open>createdAt\<close>.
\<close>

theorem csvContent_layout:
  "(let header = ''Order ID,Customer,PO Number,Items,Status,Date'';
        line = (\<lambda>order :: Order. order_id order @ '','' @ customerName order @ '','' @
                          order_poNumber order @ '','' @ toString (order_totalItems order) @
                          '','' @ status order @ '','' @ format_yyyy_MM_dd (createdAt order))
    in fst (exportToExcel now filteredOrders) =
         (''orders-'' @ format_yyyy_MM_dd now @ ''.csv'', csvContent filteredOrders) \<and>
       csvContent filteredOrders = join [CHR 0x0A] (header # map line filteredOrders) \<and>
       hd (split_at (CHR 0x0A) (csvContent filteredOrders)) = header \<and>
       csvContent [a, b] = header @ [CHR 0x0A] @ line a @ [CHR 0x0A] @ line b \<and>
       ((\<forall>order \<in> set filteredOrders.
            CHR 0x0A \<notin> set (order_id order) \<and> CHR 0x0A \<notin> set (customerName order) \<and>
            CHR 0x0A \<notin> set (order_poNumber order) \<and> CHR 0x0A \<notin> set (status order)) \<longrightarrow>
        split_at (CHR 0x0A) (csvContent filteredOrders) = header # map line filteredOrders \<and>
        length (split_at (CHR 0x0A) (csvContent filteredOrders)) = 1 + length filteredOrders)) \<and>
   (1 \<le> getFullYear d \<and> getFullYear d \<le> 9999 \<and> getMonth d < 12 \<and> getDate d \<le> 31 \<longrightarrow>
      (\<exists>yyyy MM dd. format_yyyy_MM_dd d = yyyy @ ''-'' @ MM @ ''-'' @ dd \<and>
         length yyyy = 4 \<and> length MM = 2 \<and> length dd = 2 \<and>
         (\<forall>c \<in> set (yyyy @ MM @ dd). is_digit c) \<and>
         int (radix_value 10 yyyy) = getFullYear d \<and>
         radix_value 10 MM = getMonth d + 1 \<and>
         radix_value 10 dd = getDate d))"
proof -
  define header where "header = ''Order ID,Customer,PO Number,Items,Status,Date''"
  define line where "line = (\<lambda>order :: Order. order_id order @ '','' @ customerName order @ '','' @
                          order_poNumber order @ '','' @ toString (order_totalItems order) @
                          '','' @ status order @ '','' @ format_yyyy_MM_dd (createdAt order))"
  have content: "csvContent os = join [CHR 0x0A] (header # map line os)" for os
    by (simp add: csvContent_def csv_header csv_rows header_def line_def)
  have header_plain: "CHR 0x0A \<notin> set header"
    by (simp add: header_def)
  have first: "hd (split_at (CHR 0x0A) (csvContent filteredOrders)) = header"
    unfolding content using header_plain by (rule hd_split_at_join)
  have two: "csvContent [a, b] = header @ [CHR 0x0A] @ line a @ [CHR 0x0A] @ line b"
    by (simp add: content)
  have lines: "split_at (CHR 0x0A) (csvContent filteredOrders) = header # map line filteredOrders"
    if plain: "\<forall>order \<in> set filteredOrders.
            CHR 0x0A \<notin> set (order_id order) \<and> CHR 0x0A \<notin> set (customerName order) \<and>
            CHR 0x0A \<notin> set (order_poNumber order) \<and> CHR 0x0A \<notin> set (status order)"
  proof -
    have "\<forall>x \<in> set (header # map line filteredOrders). CHR 0x0A \<notin> set x"
      using plain header_plain toString_no_newline format_no_newline
      by (auto simp: line_def)
    then show ?thesis
      unfolding content by (intro split_at_join) simp_all
  qed
  have shape: "\<exists>yyyy MM dd. format_yyyy_MM_dd d = yyyy @ ''-'' @ MM @ ''-'' @ dd \<and>
         length yyyy = 4 \<and> length MM = 2 \<and> length dd = 2 \<and>
         (\<forall>c \<in> set (yyyy @ MM @ dd). is_digit c) \<and>
         int (radix_value 10 yyyy) = getFullYear d \<and>
         radix_value 10 MM = getMonth d + 1 \<and>
         radix_value 10 dd = getDate d"
    if "1 \<le> getFullYear d \<and> getFullYear d \<le> 9999 \<and> getMonth d < 12 \<and> getDate d \<le> 31"
    using that by (intro format_yyyy_MM_dd_shape) simp_all
  have download: "fst (exportToExcel now filteredOrders) =
      (''orders-'' @ format_yyyy_MM_dd now @ ''.csv'', csvContent filteredOrders)"
    by (simp add: exportToExcel_def)
  from download content first two lines shape show ?thesis
    unfolding Let_def header_def [symmetric] line_def [symmetric] by simp
qed

theorem csvContent_layout_witness:
  "split_at (CHR 0x0A) (csvContent (admin_orders ex_admin)) =
     [''Order ID,Customer,PO Number,Items,Status,Date'',
      ''ORD-1,Acme, Inc.,PO-100,5,pending,2024-01-01'',
      ''ORD-2,Globex,PO-100,5,confirmed,2024-03-01''] \<and>
   length (split_at (CHR 0x0A) (csvContent (admin_orders ex_admin))) = 3 \<and>
   (\<exists>yyyy MM dd. format_yyyy_MM_dd ex_T1 = yyyy @ ''-'' @ MM @ ''-'' @ dd \<and>
      length yyyy = 4 \<and> length MM = 2 \<and> length dd = 2 \<and>
      (\<forall>c \<in> set (yyyy @ MM @ dd). is_digit c) \<and>
      radix_value 10 yyyy = 2024 \<and> radix_value 10 MM = 1 \<and> radix_value 10 dd = 1)"
  using csvContent_layout [where filteredOrders = "admin_orders ex_admin" and d = ex_T1]
  by (simp add: Let_def ex_admin_def ex_order_def toString_5 format_ex_dates)
     (simp add: ex_T1_def)

end
